theory Spec2Isabelle
  imports Complex_Main
begin

section \<open>Strings as Python handles them\<close>

text \<open>
  A query is a Python \<^verbatim>\<open>str\<close>. The model reads it as a list of characters over the
  ASCII range, where \<^verbatim>\<open>lower\<close>, \<^verbatim>\<open>isupper\<close>, \<^verbatim>\<open>title\<close>, \<^verbatim>\<open>split\<close> and \<^verbatim>\<open>strip\<close>
  act as written below: the cased characters are \<^verbatim>\<open>A-Z\<close> and \<^verbatim>\<open>a-z\<close>, the whitespace
  characters are the code points 9 to 13, 28 to 31 and 32.
\<close>

definition isupper :: "char \<Rightarrow> bool" where
  "isupper c = (let n = (of_char c :: nat) in 65 \<le> n \<and> n \<le> 90)"

definition islower :: "char \<Rightarrow> bool" where
  "islower c = (let n = (of_char c :: nat) in 97 \<le> n \<and> n \<le> 122)"

definition isspace :: "char \<Rightarrow> bool" where
  "isspace c = (let n = (of_char c :: nat) in (9 \<le> n \<and> n \<le> 13) \<or> (28 \<le> n \<and> n \<le> 32))"

definition lower_char :: "char \<Rightarrow> char" where
  "lower_char c = (if isupper c then char_of ((of_char c :: nat) + 32) else c)"

definition upper_char :: "char \<Rightarrow> char" where
  "upper_char c = (if islower c then char_of ((of_char c :: nat) - 32) else c)"

text \<open>\<^verbatim>\<open>s.lower()\<close>\<close>

definition lower :: "string \<Rightarrow> string" where
  "lower s = map lower_char s"

text \<open>
  \<^verbatim>\<open>s.title()\<close>: a cased character that follows an uncased one (or starts the string) is
  upper-cased, a cased character that follows a cased one is lower-cased. The flag is
  Python's \<^verbatim>\<open>previous_is_cased\<close>.
\<close>

fun title_from :: "bool \<Rightarrow> string \<Rightarrow> string" where
  "title_from previous_is_cased [] = []"
| "title_from previous_is_cased (c # cs) =
     (if islower c then (if previous_is_cased then c else upper_char c) # title_from True cs
      else if isupper c then (if previous_is_cased then lower_char c else c) # title_from True cs
      else c # title_from False cs)"

definition title :: "string \<Rightarrow> string" where
  "title s = title_from False s"

text \<open>\<^verbatim>\<open>kw in s\<close> on strings: \<^verbatim>\<open>kw\<close> occurs in \<^verbatim>\<open>s\<close> as a contiguous run.\<close>

fun startswith :: "string \<Rightarrow> string \<Rightarrow> bool" where
  "startswith s [] = True"
| "startswith [] (k # ks) = False"
| "startswith (c # cs) (k # ks) = (c = k \<and> startswith cs ks)"

fun in_str :: "string \<Rightarrow> string \<Rightarrow> bool" where
  "in_str kw [] = (kw = [])"
| "in_str kw (c # cs) = (startswith (c # cs) kw \<or> in_str kw cs)"

text \<open>
  \<^verbatim>\<open>s.split()\<close> with no argument: the maximal runs of non-whitespace characters, in
  order; no empty string is produced. The first argument is the run being read.
\<close>

fun split_from :: "string \<Rightarrow> string \<Rightarrow> string list" where
  "split_from w [] = (if w = [] then [] else [w])"
| "split_from w (c # cs) =
     (if isspace c then (if w = [] then split_from [] cs else w # split_from [] cs)
      else split_from (w @ [c]) cs)"

definition split :: "string \<Rightarrow> string list" where
  "split s = split_from [] s"

text \<open>\<^verbatim>\<open>s.strip(chars)\<close>: drop the characters of \<^verbatim>\<open>chars\<close> from both ends.\<close>

definition strip :: "string \<Rightarrow> string \<Rightarrow> string" where
  "strip chars s =
     rev (dropWhile (\<lambda>c. c \<in> set chars) (rev (dropWhile (\<lambda>c. c \<in> set chars) s)))"

text \<open>\<^verbatim>\<open>any(kw in s for kw in kws)\<close>\<close>

definition any_in :: "string list \<Rightarrow> string \<Rightarrow> bool" where
  "any_in kws s = list_ex (\<lambda>kw. in_str kw s) kws"

text \<open>\<^verbatim>\<open>str(n)\<close> for integers, in decimal.\<close>

fun str_nat :: "nat \<Rightarrow> string" where
  "str_nat n =
     (if n < 10 then [char_of (48 + n)]
      else str_nat (n div 10) @ [char_of (48 + n mod 10)])"

definition str_int :: "int \<Rightarrow> string" where
  "str_int i = (if i < 0 then ''-'' @ str_nat (nat (- i)) else str_nat (nat i))"

text \<open>The newline character, as a string.\<close>

definition NL :: string where
  "NL = [CHR 0x0A]"

section \<open>The retriever: \<^verbatim>\<open>src/rag/retriever.py\<close>\<close>

datatype EntityType = COMPANY | INVESTOR | SECTOR | LOCATION | VALUATION | COMPARISON

record ExtractedEntities =
  companies :: "string list"
  investors :: "string list"
  sectors :: "string list"
  locations :: "string list"
  query_types :: "EntityType set"
  is_comparison :: bool
  is_aggregation :: bool
  is_top_query :: bool

text \<open>\<^verbatim>\<open>ExtractedEntities()\<close>: every field from its default factory, fresh at each call.\<close>

definition ExtractedEntities_new :: ExtractedEntities where
  "ExtractedEntities_new =
     \<lparr>companies = [], investors = [], sectors = [], locations = [], query_types = {},
      is_comparison = False, is_aggregation = False, is_top_query = False\<rparr>"

text \<open>
  The three gazetteers are class attributes holding Python sets. The extractor iterates
  over them and appends to a list, so the order in which a set yields its elements shows
  in the result; Python fixes that order for the lifetime of the set only. The record
  holds each gazetteer as the list of its elements in iteration order.
\<close>

record GraphRetriever =
  KNOWN_INVESTORS :: "string list"
  KNOWN_SECTORS :: "string list"
  KNOWN_LOCATIONS :: "string list"

text \<open>The gazetteers in the order the source writes them.\<close>

definition GraphRetriever_class :: GraphRetriever where
  "GraphRetriever_class =
     \<lparr>KNOWN_INVESTORS =
        [''tiger global'', ''softbank'', ''sequoia'', ''accel'', ''matrix'',
         ''temasek'', ''tencent'', ''alibaba'', ''lightspeed'', ''elevation'',
         ''nexus'', ''kalaari'', ''chiratae'', ''bessemer'', ''general atlantic''],
      KNOWN_SECTORS =
        [''fintech'', ''edtech'', ''e-commerce'', ''ecommerce'', ''saas'',
         ''foodtech'', ''healthtech'', ''proptech'', ''logistics'', ''gaming'',
         ''d2c'', ''b2b'', ''marketplace'', ''mobility'', ''adtech''],
      KNOWN_LOCATIONS =
        [''bangalore'', ''bengaluru'', ''mumbai'', ''delhi'', ''gurgaon'',
         ''gurugram'', ''noida'', ''pune'', ''chennai'', ''hyderabad'',
         ''jaipur'', ''thane'', ''goa'', ''kolkata'']\<rparr>"

text \<open>
  A retriever object of the program: each gazetteer in some iteration order of the
  class's set.
\<close>

definition iteration_of :: "GraphRetriever \<Rightarrow> bool" where
  "iteration_of self \<longleftrightarrow>
     distinct (KNOWN_INVESTORS self) \<and>
     set (KNOWN_INVESTORS self) = set (KNOWN_INVESTORS GraphRetriever_class) \<and>
     distinct (KNOWN_SECTORS self) \<and>
     set (KNOWN_SECTORS self) = set (KNOWN_SECTORS GraphRetriever_class) \<and>
     distinct (KNOWN_LOCATIONS self) \<and>
     set (KNOWN_LOCATIONS self) = set (KNOWN_LOCATIONS GraphRetriever_class)"

text \<open>
  The keyword sets are only read through \<^verbatim>\<open>any(...)\<close>, which does not depend on the
  order of iteration.
\<close>

definition COMPARISON_KEYWORDS :: "string list" where
  "COMPARISON_KEYWORDS = [''compare'', ''vs'', ''versus'', ''difference'', ''between'']"

definition AGGREGATION_KEYWORDS :: "string list" where
  "AGGREGATION_KEYWORDS = [''total'', ''sum'', ''average'', ''count'', ''how many'']"

definition TOP_KEYWORDS :: "string list" where
  "TOP_KEYWORDS = [''top'', ''best'', ''highest'', ''largest'', ''biggest'', ''most'']"

definition INVESTOR_KEYWORDS :: "string list" where
  "INVESTOR_KEYWORDS =
     [''investor'', ''invested'', ''portfolio'', ''fund'', ''vc'', ''capital'', ''backed'']"

definition SECTOR_KEYWORDS :: "string list" where
  "SECTOR_KEYWORDS = [''sector'', ''industry'', ''segment'', ''vertical'']"

definition LOCATION_KEYWORDS :: "string list" where
  "LOCATION_KEYWORDS = [''located'', ''based'', ''city'', ''where'']"

text \<open>The punctuation stripped from both ends of a token: \<^verbatim>\<open>?,.'"!()\<close>\<close>

definition strip_chars :: string where
  "strip_chars = [CHR ''?'', CHR '','', CHR ''.'', CHR 0x27, CHR 0x22, CHR ''!'', CHR ''('', CHR '')'']"

datatype py_error = IndexError

text \<open>\<^verbatim>\<open>entities.query_types.add(t)\<close>\<close>

definition add_type :: "EntityType \<Rightarrow> ExtractedEntities \<Rightarrow> ExtractedEntities" where
  "add_type t entities = entities\<lparr>query_types := insert t (query_types entities)\<rparr>"

text \<open>The bodies of the three gazetteer loops.\<close>

definition investor_step :: "string \<Rightarrow> ExtractedEntities \<Rightarrow> string \<Rightarrow> ExtractedEntities" where
  "investor_step query_lower entities investor =
     (if in_str investor query_lower
      then add_type INVESTOR (entities\<lparr>investors := investors entities @ [title investor]\<rparr>)
      else entities)"

definition sector_step :: "string \<Rightarrow> ExtractedEntities \<Rightarrow> string \<Rightarrow> ExtractedEntities" where
  "sector_step query_lower entities sector =
     (if in_str sector query_lower
      then add_type SECTOR (entities\<lparr>sectors := sectors entities @ [title sector]\<rparr>)
      else entities)"

definition location_step :: "string \<Rightarrow> ExtractedEntities \<Rightarrow> string \<Rightarrow> ExtractedEntities" where
  "location_step query_lower entities location =
     (if in_str location query_lower
      then add_type LOCATION (entities\<lparr>locations := locations entities @ [title location]\<rparr>)
      else entities)"

text \<open>
  The loop over \<^verbatim>\<open>keywords\<close>. \<^verbatim>\<open>word[0]\<close> raises \<^verbatim>\<open>IndexError\<close> on an empty word,
  and the conjunction is evaluated from left to right, so that comes first.
\<close>

fun company_loop ::
  "GraphRetriever \<Rightarrow> string list \<Rightarrow> ExtractedEntities \<Rightarrow> py_error + ExtractedEntities" where
  "company_loop self [] entities = Inr entities"
| "company_loop self (word # rest) entities =
     (let word_lower = lower word in
      case word of
        [] \<Rightarrow> Inl IndexError
      | c # _ \<Rightarrow>
          if isupper c \<and>
             word_lower \<notin> set (KNOWN_INVESTORS self) \<and>
             word_lower \<notin> set (KNOWN_SECTORS self) \<and>
             word_lower \<notin> set (KNOWN_LOCATIONS self) \<and>
             length word > 3
          then company_loop self rest
                 (add_type COMPANY (entities\<lparr>companies := companies entities @ [word]\<rparr>))
          else company_loop self rest entities)"

text \<open>\<^verbatim>\<open>words\<close> and \<^verbatim>\<open>keywords\<close> of \<^verbatim>\<open>extract_entities\<close>.\<close>

definition words_of :: "string \<Rightarrow> string list" where
  "words_of query = map (strip strip_chars) (split query)"

definition keywords_of :: "string \<Rightarrow> string list" where
  "keywords_of query = filter (\<lambda>w. length w > 2) (words_of query)"

definition extract_entities :: "GraphRetriever \<Rightarrow> string \<Rightarrow> py_error + ExtractedEntities" where
  "extract_entities self query =
     (let query_lower = lower query;
          entities = ExtractedEntities_new;
          entities = entities\<lparr>is_comparison := any_in COMPARISON_KEYWORDS query_lower\<rparr>;
          entities = entities\<lparr>is_aggregation := any_in AGGREGATION_KEYWORDS query_lower\<rparr>;
          entities = entities\<lparr>is_top_query := any_in TOP_KEYWORDS query_lower\<rparr>;
          keywords = keywords_of query;
          entities = (if any_in INVESTOR_KEYWORDS query_lower
                      then add_type INVESTOR entities else entities);
          entities = (if any_in SECTOR_KEYWORDS query_lower
                      then add_type SECTOR entities else entities);
          entities = (if any_in LOCATION_KEYWORDS query_lower
                      then add_type LOCATION entities else entities);
          entities = foldl (investor_step query_lower) entities (KNOWN_INVESTORS self);
          entities = foldl (sector_step query_lower) entities (KNOWN_SECTORS self);
          entities = foldl (location_step query_lower) entities (KNOWN_LOCATIONS self)
      in company_loop self keywords entities)"

definition get_query_intent :: "ExtractedEntities \<Rightarrow> string" where
  "get_query_intent entities =
     (if is_comparison entities then ''comparison''
      else if is_aggregation entities then ''aggregation''
      else if is_top_query entities then ''top_ranking''
      else if INVESTOR \<in> query_types entities then ''investor_info''
      else if SECTOR \<in> query_types entities then ''sector_info''
      else if LOCATION \<in> query_types entities then ''location_info''
      else if COMPANY \<in> query_types entities then ''company_info''
      else ''general'')"

text \<open>
  The rule for company candidates as the specification words it: a token longer than 3
  characters whose first character is upper-case and whose lower-cased form is in none
  of the three gazetteers.
\<close>

definition company_candidate :: "GraphRetriever \<Rightarrow> string \<Rightarrow> bool" where
  "company_candidate self w \<longleftrightarrow>
     length w > 3 \<and> isupper (hd w) \<and>
     lower w \<notin> set (KNOWN_INVESTORS self) \<and>
     lower w \<notin> set (KNOWN_SECTORS self) \<and>
     lower w \<notin> set (KNOWN_LOCATIONS self)"

text \<open>The type tags a query receives, by family.\<close>

definition type_tags :: "GraphRetriever \<Rightarrow> string \<Rightarrow> EntityType set" where
  "type_tags self query =
     {t. t = INVESTOR \<and> (any_in INVESTOR_KEYWORDS (lower query) \<or>
                            any_in (KNOWN_INVESTORS self) (lower query))} \<union>
     {t. t = SECTOR \<and> (any_in SECTOR_KEYWORDS (lower query) \<or>
                          any_in (KNOWN_SECTORS self) (lower query))} \<union>
     {t. t = LOCATION \<and> (any_in LOCATION_KEYWORDS (lower query) \<or>
                            any_in (KNOWN_LOCATIONS self) (lower query))} \<union>
     {t. t = COMPANY \<and> filter (company_candidate self) (words_of query) \<noteq> []}"

subsection \<open>The extractor on the heap\<close>

text \<open>
  Python objects live on a heap and are reached through references. The objects that
  matter here are lists of strings (a set of strings is held as the list of its elements
  in iteration order) and sets of type tags. \<^verbatim>\<open>fresh\<close> is the next unused address; an
  object, once created, stays where it is.
\<close>

type_synonym addr = nat

datatype object = StrList "string list" | TypeSet "EntityType set"

record heap =
  objects :: "addr \<Rightarrow> object option"
  fresh :: addr

text \<open>Creating an object.\<close>

definition new_object :: "object \<Rightarrow> heap \<Rightarrow> addr \<times> heap" where
  "new_object ob h =
     (fresh h, h\<lparr>objects := (objects h)(fresh h \<mapsto> ob), fresh := Suc (fresh h)\<rparr>)"

text \<open>Reading a list and a set of tags through a reference.\<close>

definition list_at :: "heap \<Rightarrow> addr \<Rightarrow> string list" where
  "list_at h a = (case objects h a of Some (StrList xs) \<Rightarrow> xs | _ \<Rightarrow> [])"

definition types_at :: "heap \<Rightarrow> addr \<Rightarrow> EntityType set" where
  "types_at h a = (case objects h a of Some (TypeSet ts) \<Rightarrow> ts | _ \<Rightarrow> {})"

text \<open>\<^verbatim>\<open>xs.append(x)\<close> and \<^verbatim>\<open>ts.add(t)\<close>: they change the object in place.\<close>

definition append_at :: "addr \<Rightarrow> string \<Rightarrow> heap \<Rightarrow> heap" where
  "append_at a x h = h\<lparr>objects := (objects h)(a \<mapsto> StrList (list_at h a @ [x]))\<rparr>"

definition add_at :: "addr \<Rightarrow> EntityType \<Rightarrow> heap \<Rightarrow> heap" where
  "add_at a t h = h\<lparr>objects := (objects h)(a \<mapsto> TypeSet (insert t (types_at h a)))\<rparr>"

text \<open>
  The class attributes of \<^verbatim>\<open>GraphRetriever\<close> that the extractor reads, as references to
  the three sets; and an \<^verbatim>\<open>ExtractedEntities\<close> object, with references to its four lists
  and its set of tags.
\<close>

record retriever_object =
  KNOWN_INVESTORS_ref :: addr
  KNOWN_SECTORS_ref :: addr
  KNOWN_LOCATIONS_ref :: addr

record entities_object =
  companies_ref :: addr
  investors_ref :: addr
  sectors_ref :: addr
  locations_ref :: addr
  query_types_ref :: addr
  is_comparison_attr :: bool
  is_aggregation_attr :: bool
  is_top_query_attr :: bool

text \<open>What the references stand for in a heap.\<close>

definition retriever_value :: "heap \<Rightarrow> retriever_object \<Rightarrow> GraphRetriever" where
  "retriever_value h self =
     \<lparr>KNOWN_INVESTORS = list_at h (KNOWN_INVESTORS_ref self),
      KNOWN_SECTORS = list_at h (KNOWN_SECTORS_ref self),
      KNOWN_LOCATIONS = list_at h (KNOWN_LOCATIONS_ref self)\<rparr>"

definition entities_value :: "heap \<Rightarrow> entities_object \<Rightarrow> ExtractedEntities" where
  "entities_value h entities =
     \<lparr>companies = list_at h (companies_ref entities),
      investors = list_at h (investors_ref entities),
      sectors = list_at h (sectors_ref entities),
      locations = list_at h (locations_ref entities),
      query_types = types_at h (query_types_ref entities),
      is_comparison = is_comparison_attr entities,
      is_aggregation = is_aggregation_attr entities,
      is_top_query = is_top_query_attr entities\<rparr>"

text \<open>
  \<^verbatim>\<open>ExtractedEntities()\<close>: each \<^verbatim>\<open>default_factory\<close> creates a new, empty object.
\<close>

definition new_entities :: "heap \<Rightarrow> entities_object \<times> heap" where
  "new_entities h =
     (let (c, h) = new_object (StrList []) h;
          (i, h) = new_object (StrList []) h;
          (s, h) = new_object (StrList []) h;
          (l, h) = new_object (StrList []) h;
          (q, h) = new_object (TypeSet {}) h
      in (\<lparr>companies_ref = c, investors_ref = i, sectors_ref = s, locations_ref = l,
           query_types_ref = q, is_comparison_attr = False, is_aggregation_attr = False,
           is_top_query_attr = False\<rparr>, h))"

text \<open>The bodies of the loops, acting on the heap.\<close>

definition investor_step_heap :: "string \<Rightarrow> entities_object \<Rightarrow> heap \<Rightarrow> string \<Rightarrow> heap" where
  "investor_step_heap query_lower entities h investor =
     (if in_str investor query_lower
      then add_at (query_types_ref entities) INVESTOR
             (append_at (investors_ref entities) (title investor) h)
      else h)"

definition sector_step_heap :: "string \<Rightarrow> entities_object \<Rightarrow> heap \<Rightarrow> string \<Rightarrow> heap" where
  "sector_step_heap query_lower entities h sector =
     (if in_str sector query_lower
      then add_at (query_types_ref entities) SECTOR
             (append_at (sectors_ref entities) (title sector) h)
      else h)"

definition location_step_heap :: "string \<Rightarrow> entities_object \<Rightarrow> heap \<Rightarrow> string \<Rightarrow> heap" where
  "location_step_heap query_lower entities h location =
     (if in_str location query_lower
      then add_at (query_types_ref entities) LOCATION
             (append_at (locations_ref entities) (title location) h)
      else h)"

fun company_loop_heap ::
  "retriever_object \<Rightarrow> entities_object \<Rightarrow> string list \<Rightarrow> heap \<Rightarrow> py_error option \<times> heap" where
  "company_loop_heap self entities [] h = (None, h)"
| "company_loop_heap self entities (word # rest) h =
     (let word_lower = lower word in
      case word of
        [] \<Rightarrow> (Some IndexError, h)
      | c # _ \<Rightarrow>
          if isupper c \<and>
             word_lower \<notin> set (list_at h (KNOWN_INVESTORS_ref self)) \<and>
             word_lower \<notin> set (list_at h (KNOWN_SECTORS_ref self)) \<and>
             word_lower \<notin> set (list_at h (KNOWN_LOCATIONS_ref self)) \<and>
             length word > 3
          then company_loop_heap self entities rest
                 (add_at (query_types_ref entities) COMPANY
                    (append_at (companies_ref entities) word h))
          else company_loop_heap self entities rest h)"

text \<open>
  \<^verbatim>\<open>extract_entities\<close> on the heap: it returns the reference to the new object, or
  raises, and the heap as the call leaves it.
\<close>

definition extract_entities_heap ::
  "retriever_object \<Rightarrow> string \<Rightarrow> heap \<Rightarrow> (py_error + entities_object) \<times> heap" where
  "extract_entities_heap self query h =
     (let query_lower = lower query;
          (entities, h) = new_entities h;
          entities = entities\<lparr>is_comparison_attr := any_in COMPARISON_KEYWORDS query_lower\<rparr>;
          entities = entities\<lparr>is_aggregation_attr := any_in AGGREGATION_KEYWORDS query_lower\<rparr>;
          entities = entities\<lparr>is_top_query_attr := any_in TOP_KEYWORDS query_lower\<rparr>;
          keywords = keywords_of query;
          h = (if any_in INVESTOR_KEYWORDS query_lower
               then add_at (query_types_ref entities) INVESTOR h else h);
          h = (if any_in SECTOR_KEYWORDS query_lower
               then add_at (query_types_ref entities) SECTOR h else h);
          h = (if any_in LOCATION_KEYWORDS query_lower
               then add_at (query_types_ref entities) LOCATION h else h);
          h = foldl (investor_step_heap query_lower entities) h
                (list_at h (KNOWN_INVESTORS_ref self));
          h = foldl (sector_step_heap query_lower entities) h
                (list_at h (KNOWN_SECTORS_ref self));
          h = foldl (location_step_heap query_lower entities) h
                (list_at h (KNOWN_LOCATIONS_ref self))
      in case company_loop_heap self entities keywords h of
           (None, h) \<Rightarrow> (Inr entities, h)
         | (Some err, h) \<Rightarrow> (Inl err, h))"

text \<open>The heap after the class body has run, and the class attributes in it.\<close>

definition class_heap :: heap where
  "class_heap =
     \<lparr>objects = [0 \<mapsto> StrList (KNOWN_INVESTORS GraphRetriever_class),
                 1 \<mapsto> StrList (KNOWN_SECTORS GraphRetriever_class),
                 2 \<mapsto> StrList (KNOWN_LOCATIONS GraphRetriever_class)],
      fresh = 3\<rparr>"

definition class_object :: retriever_object where
  "class_object = \<lparr>KNOWN_INVESTORS_ref = 0, KNOWN_SECTORS_ref = 1, KNOWN_LOCATIONS_ref = 2\<rparr>"

text \<open>The references held by an \<^verbatim>\<open>ExtractedEntities\<close> object.\<close>

definition refs_of :: "entities_object \<Rightarrow> addr list" where
  "refs_of entities =
     [companies_ref entities, investors_ref entities, sectors_ref entities,
      locations_ref entities, query_types_ref entities]"

section \<open>The generation client: \<^verbatim>\<open>src/llm/ollama_client.py\<close>\<close>

text \<open>
  A parsed JSON value, as \<^verbatim>\<open>response.json()\<close> returns it. An object is the Python
  dictionary as a list of pairs, read from the front. A float is the rational number it
  stands for; the infinities and NaN, which Python's decoder also accepts and which
  divide without raising, are left out.
\<close>

datatype json_value =
  JNull | JBool bool | JInt int | JFloat rat | JStr string
  | JArr "json_value list" | JObj "(string \<times> json_value) list"

text \<open>The name of a value's Python type, as error messages print it.\<close>

fun type_name :: "json_value \<Rightarrow> string" where
  "type_name JNull = ''NoneType''"
| "type_name (JBool b) = ''bool''"
| "type_name (JInt i) = ''int''"
| "type_name (JFloat r) = ''float''"
| "type_name (JStr s) = ''str''"
| "type_name (JArr xs) = ''list''"
| "type_name (JObj kvs) = ''dict''"

definition quoted :: "string \<Rightarrow> string" where
  "quoted s = [CHR 0x27] @ s @ [CHR 0x27]"

text \<open>
  The exceptions derived from \<^verbatim>\<open>Exception\<close>, by the \<^verbatim>\<open>except\<close> clause of \<^verbatim>\<open>generate\<close>
  that catches them, each with the text \<^verbatim>\<open>str(e)\<close>. An exception that is both a
  connection error and a timeout is caught by the first clause and is a
  \<^verbatim>\<open>ConnectionError\<close> here. Interrupts and exits of the process, which no clause catches,
  are outside the model.
\<close>

datatype exn = ConnectionError string | Timeout string | OtherException string

text \<open>
  What \<^verbatim>\<open>response.json()\<close> raises on a body that is not JSON: the decoder's message,
  line, column and position. \<^verbatim>\<open>str(e)\<close> is put together by the decoder.
\<close>

datatype decode_error = JSONDecodeError string nat nat nat

fun str_decode_error :: "decode_error \<Rightarrow> string" where
  "str_decode_error (JSONDecodeError msg lineno colno pos) =
     msg @ '': line '' @ str_nat lineno @ '' column '' @ str_nat colno @
     '' (char '' @ str_nat pos @ '')''"

text \<open>The response of the endpoint: \<^verbatim>\<open>json\<close> is what \<^verbatim>\<open>response.json()\<close> does.\<close>

record response =
  status_code :: int
  "text" :: string
  json :: "decode_error + json_value"

text \<open>The request body.\<close>

record payload =
  payload_model :: string
  payload_prompt :: string
  payload_system :: string
  payload_stream :: bool
  payload_temperature :: rat
  payload_num_predict :: int

text \<open>\<^verbatim>\<open>settings.ollama\<close>; the client's \<^verbatim>\<open>_base_url\<close>, \<^verbatim>\<open>_model\<close> and \<^verbatim>\<open>_timeout\<close> are its fields.\<close>

record OllamaConfig =
  ollama_base_url :: string
  ollama_model :: string
  ollama_temperature :: rat
  ollama_max_tokens :: int
  ollama_timeout :: int

record LLMResponse =
  content :: json_value
  model :: json_value
  total_duration_ms :: rat
  eval_count :: json_value
  success :: bool
  error :: "string option"

definition SYSTEM_PROMPT :: string where
  "SYSTEM_PROMPT =
     ''You are an expert analyst for Indian Unicorn Startups. '' @ NL @
     ''You have access to a knowledge graph containing information about 102 Indian unicorn companies, '' @ NL @
     ''their investors, sectors, locations, and valuations.'' @ NL @
     NL @
     ''Guidelines:'' @ NL @
     ''- Use the provided context from the knowledge graph to answer questions accurately'' @ NL @
     ''- Be concise and specific in your responses'' @ NL @
     ''- Format numbers nicely (e.g., $5.6B for valuation)'' @ NL @
     ''- If data is not in the context, clearly state that'' @ NL @
     ''- Highlight key insights and patterns when relevant'' @ NL @
     ''- Use bullet points for lists''"

definition generate_url :: "OllamaConfig \<Rightarrow> string" where
  "generate_url self = ollama_base_url self @ ''/api/generate''"

definition build_prompt :: "string \<Rightarrow> string \<Rightarrow> string" where
  "build_prompt user_query context =
     ''Context from Knowledge Graph:'' @ NL @
     context @ NL @
     NL @
     ''User Question: '' @ user_query @ NL @
     NL @
     ''Based on the context above, provide a helpful and accurate answer:''"

text \<open>\<^verbatim>\<open>data.get(key, fallback)\<close>; on anything but a dictionary the attribute is missing.\<close>

definition data_get :: "json_value \<Rightarrow> string \<Rightarrow> json_value \<Rightarrow> exn + json_value" where
  "data_get data key fallback =
     (case data of
        JObj kvs \<Rightarrow> (case map_of kvs key of None \<Rightarrow> Inr fallback | Some v \<Rightarrow> Inr v)
      | _ \<Rightarrow> Inl (OtherException
                 (quoted (type_name data) @ '' object has no attribute '' @ quoted ''get'')))"

text \<open>
  \<^verbatim>\<open>v / 1_000_000\<close>. The quotient is exact here, where Python rounds it to a double. An
  integer whose quotient rounds beyond the doubles raises \<^verbatim>\<open>OverflowError\<close>; a value
  that is not a number raises \<^verbatim>\<open>TypeError\<close>.
\<close>

definition true_div_million :: "json_value \<Rightarrow> exn + rat" where
  "true_div_million v =
     (case v of
        JInt i \<Rightarrow>
          if \<bar>of_int i / 1000000\<bar> \<ge> (2 ^ 1024 - 2 ^ 970 :: rat)
          then Inl (OtherException ''integer division result too large for a float'')
          else Inr (of_int i / 1000000)
      | JBool b \<Rightarrow> Inr ((if b then 1 else 0) / 1000000)
      | JFloat r \<Rightarrow> Inr (r / 1000000)
      | _ \<Rightarrow> Inl (OtherException
                 (''unsupported operand type(s) for /: '' @ quoted (type_name v) @
                  '' and '' @ quoted ''int'')))"

text \<open>The body of the \<^verbatim>\<open>try\<close> block, given what \<^verbatim>\<open>requests.post\<close> did.\<close>

definition generate_try :: "OllamaConfig \<Rightarrow> exn + response \<Rightarrow> exn + LLMResponse" where
  "generate_try self posted =
     (case posted of
        Inl e \<Rightarrow> Inl e
      | Inr response \<Rightarrow>
          if status_code response = 200
          then (case json response of
                  Inl e \<Rightarrow> Inl (OtherException (str_decode_error e))
                | Inr data \<Rightarrow>
                    (case data_get data ''response'' (JStr []) of
                       Inl e \<Rightarrow> Inl e
                     | Inr content_v \<Rightarrow>
                    (case data_get data ''model'' (JStr (ollama_model self)) of
                       Inl e \<Rightarrow> Inl e
                     | Inr model_v \<Rightarrow>
                    (case data_get data ''total_duration'' (JInt 0) of
                       Inl e \<Rightarrow> Inl e
                     | Inr duration_v \<Rightarrow>
                    (case true_div_million duration_v of
                       Inl e \<Rightarrow> Inl e
                     | Inr ms \<Rightarrow>
                    (case data_get data ''eval_count'' (JInt 0) of
                       Inl e \<Rightarrow> Inl e
                     | Inr eval_v \<Rightarrow>
                         Inr \<lparr>content = content_v, model = model_v, total_duration_ms = ms,
                              eval_count = eval_v, success = True, error = None\<rparr>))))))
          else Inr \<lparr>content = JStr [], model = JStr (ollama_model self),
                    total_duration_ms = 0, eval_count = JInt 0, success = False,
                    error = Some (''HTTP '' @ str_int (status_code response) @ '': '' @
                                  text response)\<rparr>)"

text \<open>The three \<^verbatim>\<open>except\<close> clauses, in their order.\<close>

fun generate_except :: "OllamaConfig \<Rightarrow> exn \<Rightarrow> exn + LLMResponse" where
  "generate_except self (ConnectionError m) =
     Inr \<lparr>content = JStr [], model = JStr (ollama_model self), total_duration_ms = 0,
          eval_count = JInt 0, success = False,
          error = Some (''Cannot connect to Ollama. Make sure it'' @ [CHR 0x27] @
                        ''s running: `ollama serve`'')\<rparr>"
| "generate_except self (Timeout m) =
     Inr \<lparr>content = JStr [], model = JStr (ollama_model self), total_duration_ms = 0,
          eval_count = JInt 0, success = False,
          error = Some ''Request timed out. The model may be loading or overloaded.''\<rparr>"
| "generate_except self (OtherException m) =
     Inr \<lparr>content = JStr [], model = JStr (ollama_model self), total_duration_ms = 0,
          eval_count = JInt 0, success = False, error = Some m\<rparr>"

text \<open>
  The request body that \<^verbatim>\<open>generate\<close> prepares. A missing, empty or zero optional
  argument gives way to the default, as \<^verbatim>\<open>or\<close> does.
\<close>

definition generate_payload ::
  "OllamaConfig \<Rightarrow> string \<Rightarrow> string \<Rightarrow> string option \<Rightarrow> rat option \<Rightarrow> int option \<Rightarrow> payload" where
  "generate_payload self prompt context system_prompt temperature max_tokens =
     (let full_prompt = build_prompt prompt context
      in \<lparr>payload_model = ollama_model self,
          payload_prompt = full_prompt,
          payload_system =
            (case system_prompt of
               Some s \<Rightarrow> if s \<noteq> [] then s else SYSTEM_PROMPT
             | None \<Rightarrow> SYSTEM_PROMPT),
          payload_stream = False,
          payload_temperature =
            (case temperature of
               Some t \<Rightarrow> if t \<noteq> 0 then t else ollama_temperature self
             | None \<Rightarrow> ollama_temperature self),
          payload_num_predict =
            (case max_tokens of
               Some n \<Rightarrow> if n \<noteq> 0 then n else ollama_max_tokens self
             | None \<Rightarrow> ollama_max_tokens self)\<rparr>)"

text \<open>
  \<^verbatim>\<open>generate\<close>. The endpoint is the argument \<^verbatim>\<open>post\<close>: what \<^verbatim>\<open>requests.post\<close> does for
  a URL, a request body and a timeout, which is to raise or to return a response.
\<close>

definition generate ::
  "OllamaConfig \<Rightarrow> (string \<Rightarrow> payload \<Rightarrow> int \<Rightarrow> exn + response) \<Rightarrow>
   string \<Rightarrow> string \<Rightarrow> string option \<Rightarrow> rat option \<Rightarrow> int option \<Rightarrow> exn + LLMResponse" where
  "generate self post prompt context system_prompt temperature max_tokens =
     (let request = generate_payload self prompt context system_prompt temperature max_tokens
      in case generate_try self (post (generate_url self) request (ollama_timeout self)) of
           Inr result \<Rightarrow> Inr result
         | Inl e \<Rightarrow> generate_except self e)"

text \<open>
  The failures that the specification names: the connection is refused, the request
  times out, the status is not 200, or the status is 200 and the body is not JSON.
\<close>

definition failed_exchange :: "exn + response \<Rightarrow> bool" where
  "failed_exchange posted =
     (case posted of
        Inl (ConnectionError m) \<Rightarrow> True
      | Inl (Timeout m) \<Rightarrow> True
      | Inl (OtherException m) \<Rightarrow> False
      | Inr response \<Rightarrow>
          status_code response \<noteq> 200 \<or> (case json response of Inl e \<Rightarrow> True | Inr data \<Rightarrow> False))"

text \<open>
  A value that \<^verbatim>\<open>generate\<close> can divide by a million: a number, and if an integer, one
  whose quotient is within the doubles.
\<close>

definition is_duration :: "json_value \<Rightarrow> bool" where
  "is_duration v =
     (case v of
        JInt i \<Rightarrow> \<bar>of_int i / 1000000\<bar> < (2 ^ 1024 - 2 ^ 970 :: rat)
      | JBool b \<Rightarrow> True
      | JFloat r \<Rightarrow> True
      | _ \<Rightarrow> False)"

subsection \<open>A client and some endpoints\<close>

definition example_config :: OllamaConfig where
  "example_config =
     \<lparr>ollama_base_url = ''http://localhost:11434'', ollama_model = ''mistral'',
      ollama_temperature = 3 / 10, ollama_max_tokens = 500, ollama_timeout = 60\<rparr>"

definition dquoted :: "string \<Rightarrow> string" where
  "dquoted s = [CHR 0x22] @ s @ [CHR 0x22]"

text \<open>An endpoint that refuses the connection.\<close>

definition endpoint_down :: "string \<Rightarrow> payload \<Rightarrow> int \<Rightarrow> exn + response" where
  "endpoint_down url request seconds = Inl (ConnectionError ''Connection refused'')"

text \<open>An endpoint that answers 200 with the body \<^verbatim>\<open>{"done": true}\<close>.\<close>

definition endpoint_no_response :: "string \<Rightarrow> payload \<Rightarrow> int \<Rightarrow> exn + response" where
  "endpoint_no_response url request seconds =
     Inr \<lparr>status_code = 200,
          text = ''{'' @ dquoted ''done'' @ '': true}'',
          json = Inr (JObj [(''done'', JBool True)])\<rparr>"

text \<open>An endpoint that answers 200 with the body \<^verbatim>\<open>{"total_duration": "soon"}\<close>.\<close>

definition endpoint_bad_duration :: "string \<Rightarrow> payload \<Rightarrow> int \<Rightarrow> exn + response" where
  "endpoint_bad_duration url request seconds =
     Inr \<lparr>status_code = 200,
          text = ''{'' @ dquoted ''total_duration'' @ '': '' @ dquoted ''soon'' @ ''}'',
          json = Inr (JObj [(''total_duration'', JStr ''soon'')])\<rparr>"

section \<open>Values and rows that the query layer returns\<close>

text \<open>
  The scalar values of a result row. The builder never computes with a float, it only
  prints it, so a float is carried as the text that \<^verbatim>\<open>str()\<close> gives for it.
\<close>

datatype pyval = PNone | PStr string | PInt int | PFloat string

text \<open>What an f-string prints for a value.\<close>

fun str_of :: "pyval \<Rightarrow> string" where
  "str_of PNone = ''None''"
| "str_of (PStr s) = s"
| "str_of (PInt i) = str_int i"
| "str_of (PFloat r) = r"

text \<open>The truth value of a value in a condition.\<close>

fun truthy :: "pyval \<Rightarrow> bool" where
  "truthy PNone = False"
| "truthy (PStr s) = (s \<noteq> [])"
| "truthy (PInt i) = (i \<noteq> 0)"
| "truthy (PFloat r) = (r \<noteq> ''0.0'' \<and> r \<noteq> ''-0.0'')"

text \<open>\<^verbatim>\<open>sep.join(xs)\<close>\<close>

fun join :: "string \<Rightarrow> string list \<Rightarrow> string" where
  "join sep [] = []"
| "join sep [x] = x"
| "join sep (x # y # ys) = x @ sep @ join sep (y # ys)"

text \<open>
  A row is the dictionary \<^verbatim>\<open>record.data()\<close> of one result record: its keys are the
  aliases of the query's \<^verbatim>\<open>RETURN\<close> clause, all of them present in every row. So
  \<^verbatim>\<open>row['k']\<close> never raises and \<^verbatim>\<open>row.get('k', default)\<close> never takes the default; a
  missing value is \<^verbatim>\<open>None\<close>. Each shape of row is a record; the field for the key
  \<^verbatim>\<open>k\<close> carries a prefix for the shape. The lists come from \<^verbatim>\<open>collect(DISTINCT ...)\<close>
  over names.
\<close>

record company_details =
  d_company :: pyval
  d_valuation :: pyval
  d_entryValuation :: pyval
  d_entryDate :: pyval
  d_rank :: pyval
  d_sector :: pyval
  d_subsector :: pyval
  d_locations :: "string list"
  d_investors :: "string list"

record portfolio_row =
  p_investor :: pyval
  p_company :: pyval
  p_valuation :: pyval
  p_sector :: pyval

record co_investor_row =
  ci_coInvestor :: pyval
  ci_sharedInvestments :: pyval
  ci_sampleCompanies :: "string list"

record top_investor_row =
  ti_investor :: pyval
  ti_investments :: pyval
  ti_portfolioValue :: pyval

record sector_company_row =
  sc_company :: pyval
  sc_valuation :: pyval
  sc_subsector :: pyval

record company_row =
  c_company :: pyval
  c_valuation :: pyval
  c_sector :: pyval

record sector_stats_row =
  ss_sector :: pyval
  ss_companyCount :: pyval
  ss_totalValuation :: pyval
  ss_avgValuation :: pyval

record location_stats_row =
  ls_city :: pyval
  ls_companyCount :: pyval
  ls_totalValuation :: pyval

record graph_stats =
  g_companies :: pyval
  g_investors :: pyval
  g_sectors :: pyval
  g_locations :: pyval
  g_relationships :: pyval

text \<open>
  The query layer as the builder sees it: what each lookup answers. The store is read
  only and its answers are fixed, so a lookup is a function of its arguments.
  The field \<^verbatim>\<open>x_of\<close> is the method \<^verbatim>\<open>get_x\<close>, with the limit as last argument.
  \<^verbatim>\<open>get_company_details\<close> answers a row or \<^verbatim>\<open>None\<close>; \<^verbatim>\<open>get_graph_stats\<close> answers a
  row or the empty dictionary, which is \<^const>\<open>None\<close> here: the builder only tests it.
\<close>

record GraphQueries =
  company_details_of :: "string \<Rightarrow> company_details option"
  investor_portfolio_of :: "string \<Rightarrow> nat \<Rightarrow> portfolio_row list"
  co_investors_of :: "string \<Rightarrow> nat \<Rightarrow> co_investor_row list"
  top_investors_of :: "nat \<Rightarrow> top_investor_row list"
  sector_companies_of :: "string \<Rightarrow> nat \<Rightarrow> sector_company_row list"
  city_companies_of :: "string \<Rightarrow> nat \<Rightarrow> company_row list"
  top_companies_of :: "nat \<Rightarrow> company_row list"
  sector_stats_of :: "sector_stats_row list"
  location_stats_of :: "location_stats_row list"
  graph_stats_of :: "graph_stats option"

section \<open>The context builder: \<^verbatim>\<open>src/rag/context_builder.py\<close>\<close>

subsection \<open>Formatting\<close>

definition format_company_details :: "company_details \<Rightarrow> string" where
  "format_company_details details =
     (let investor_names = d_investors details;
          investor_str = (if investor_names \<noteq> [] then join '', '' (take 7 investor_names) else ''N/A'');
          investor_str = (if length investor_names > 7
                          then investor_str @ '' (+'' @ str_nat (length investor_names - 7) @ '' more)''
                          else investor_str)
      in ''**Company: '' @ str_of (d_company details) @ ''**'' @ NL @
         ''- Sector: '' @ str_of (d_sector details) @ '' '' @
           (if truthy (d_subsector details)
            then ''('' @ str_of (d_subsector details) @ '')'' else []) @ NL @
         ''- Current Valuation: $'' @ str_of (d_valuation details) @ ''B'' @ NL @
         ''- Entry Valuation: $'' @ str_of (d_entryValuation details) @ ''B'' @ NL @
         ''- Entry Date: '' @ str_of (d_entryDate details) @ NL @
         ''- Locations: '' @
           (if join '', '' (d_locations details) \<noteq> []
            then join '', '' (d_locations details) else ''N/A'') @ NL @
         ''- Key Investors: '' @ investor_str)"

definition format_investor_portfolio :: "portfolio_row list \<Rightarrow> string" where
  "format_investor_portfolio portfolio =
     (case portfolio of
        [] \<Rightarrow> []
      | first # _ \<Rightarrow>
          (let investor_name = str_of (p_investor first);
               company_texts =
                 map (\<lambda>p. str_of (p_company p) @ '' ($'' @ str_of (p_valuation p) @ ''B - '' @
                            str_of (p_sector p) @ '')'') portfolio
           in ''**Investor: '' @ investor_name @ ''**'' @ NL @
              ''- Portfolio ('' @ str_nat (length portfolio) @ '' companies): '' @
              join '', '' company_texts))"

definition format_co_investors :: "string \<Rightarrow> co_investor_row list \<Rightarrow> string" where
  "format_co_investors investor co_investors =
     join NL
       ((''**Co-investors of '' @ investor @ '':**'') #
        map (\<lambda>ci. ''- '' @ str_of (ci_coInvestor ci) @ '': '' @
                   str_of (ci_sharedInvestments ci) @ '' shared investments'') co_investors)"

definition format_sector_companies :: "string \<Rightarrow> sector_company_row list \<Rightarrow> string" where
  "format_sector_companies sector company_rows =
     (let company_lines =
            map (\<lambda>c. str_of (sc_company c) @ '' ($'' @ str_of (sc_valuation c) @ ''B)'') company_rows
      in ''**'' @ sector @ '' Sector Companies:**'' @ NL @ join '', '' company_lines)"

definition format_city_companies :: "string \<Rightarrow> company_row list \<Rightarrow> string" where
  "format_city_companies city company_rows =
     (let company_lines =
            map (\<lambda>c. str_of (c_company c) @ '' ('' @ str_of (c_sector c) @ '', $'' @
                      str_of (c_valuation c) @ ''B)'') company_rows
      in ''**Companies in '' @ city @ '':**'' @ NL @ join '', '' company_lines)"

definition format_top_companies :: "company_row list \<Rightarrow> string" where
  "format_top_companies company_rows =
     join NL
       (''**Top Unicorns by Valuation:**'' #
        map (\<lambda>(i, c). str_nat i @ ''. '' @ str_of (c_company c) @ '' - $'' @
                       str_of (c_valuation c) @ ''B ('' @ str_of (c_sector c) @ '')'')
          (enumerate 1 company_rows))"

definition format_top_investors :: "top_investor_row list \<Rightarrow> string" where
  "format_top_investors investor_rows =
     join NL
       (''**Most Active Investors:**'' #
        map (\<lambda>(i, inv). str_nat i @ ''. '' @ str_of (ti_investor inv) @ '' - '' @
                         str_of (ti_investments inv) @ '' investments ($'' @
                         str_of (ti_portfolioValue inv) @ ''B total)'')
          (enumerate 1 investor_rows))"

definition format_sector_stats :: "sector_stats_row list \<Rightarrow> string" where
  "format_sector_stats stats =
     join NL
       (''**Sector Statistics:**'' #
        map (\<lambda>s. ''- '' @ str_of (ss_sector s) @ '': '' @ str_of (ss_companyCount s) @
                  '' companies, $'' @ str_of (ss_totalValuation s) @ ''B total'')
          (take 8 stats))"

definition format_location_stats :: "location_stats_row list \<Rightarrow> string" where
  "format_location_stats stats =
     join NL
       (''**Location Statistics:**'' #
        map (\<lambda>s. ''- '' @ str_of (ls_city s) @ '': '' @ str_of (ls_companyCount s) @
                  '' companies, $'' @ str_of (ls_totalValuation s) @ ''B total'')
          (take 8 stats))"

definition format_graph_stats :: "graph_stats \<Rightarrow> string" where
  "format_graph_stats stats =
     ''**Indian Unicorn Startups Database:**'' @ NL @
     ''- Total Companies: '' @ str_of (g_companies stats) @ NL @
     ''- Total Investors: '' @ str_of (g_investors stats) @ NL @
     ''- Sectors: '' @ str_of (g_sectors stats) @ NL @
     ''- Locations: '' @ str_of (g_locations stats) @ NL @
     ''- Total Relationships: '' @ str_of (g_relationships stats)"

subsection \<open>The retrieval plans\<close>

text \<open>
  Every plan returns the triple \<^verbatim>\<open>(context_parts, sources, count)\<close>. The loops are
  folds over that triple; each function below is the body of one loop.
\<close>

type_synonym plan_result = "string list \<times> string list \<times> nat"

text \<open>The company-detail loop of the company and comparison plans.\<close>

definition company_lookup :: "GraphQueries \<Rightarrow> plan_result \<Rightarrow> string \<Rightarrow> plan_result" where
  "company_lookup queries acc company_name =
     (case acc of (context_parts, srcs, count) \<Rightarrow>
        (case company_details_of queries company_name of
           None \<Rightarrow> acc
         | Some details \<Rightarrow>
             (context_parts @ [format_company_details details],
              srcs @ [''company:'' @ str_of (d_company details)],
              count + 1)))"

text \<open>The investor loop of the company plan.\<close>

definition portfolio_lookup ::
  "GraphQueries \<Rightarrow> nat \<Rightarrow> plan_result \<Rightarrow> string \<Rightarrow> plan_result" where
  "portfolio_lookup queries limit acc investor =
     (case acc of (context_parts, srcs, count) \<Rightarrow>
        (let portfolio = investor_portfolio_of queries investor limit
         in if portfolio \<noteq> []
            then (context_parts @ [format_investor_portfolio portfolio],
                  srcs @ [''investor:'' @ investor],
                  count + length portfolio)
            else acc))"

text \<open>The investor loop of the investor plan, which adds the co-investors.\<close>

definition investor_lookup :: "GraphQueries \<Rightarrow> plan_result \<Rightarrow> string \<Rightarrow> plan_result" where
  "investor_lookup queries acc investor =
     (case acc of (context_parts, srcs, count) \<Rightarrow>
        (let portfolio = investor_portfolio_of queries investor 10
         in if portfolio \<noteq> []
            then (let context_parts = context_parts @ [format_investor_portfolio portfolio];
                      srcs = srcs @ [''investor:'' @ investor];
                      count = count + length portfolio;
                      co_investors = co_investors_of queries investor 5
                  in if co_investors \<noteq> []
                     then (context_parts @ [format_co_investors investor co_investors],
                           srcs, count)
                     else (context_parts, srcs, count))
            else acc))"

text \<open>The sector loop of the sector and comparison plans.\<close>

definition sector_lookup ::
  "GraphQueries \<Rightarrow> nat \<Rightarrow> plan_result \<Rightarrow> string \<Rightarrow> plan_result" where
  "sector_lookup queries limit acc sector =
     (case acc of (context_parts, srcs, count) \<Rightarrow>
        (let company_rows = sector_companies_of queries sector limit
         in if company_rows \<noteq> []
            then (context_parts @ [format_sector_companies sector company_rows],
                  srcs @ [''sector:'' @ sector],
                  count + length company_rows)
            else acc))"

text \<open>The sector loop of the top-ranking plan: it leaves the count alone.\<close>

definition sector_lookup_top ::
  "GraphQueries \<Rightarrow> nat \<Rightarrow> plan_result \<Rightarrow> string \<Rightarrow> plan_result" where
  "sector_lookup_top queries limit acc sector =
     (case acc of (context_parts, srcs, count) \<Rightarrow>
        (let company_rows = sector_companies_of queries sector limit
         in if company_rows \<noteq> []
            then (context_parts @ [format_sector_companies sector company_rows],
                  srcs @ [''sector:'' @ sector],
                  count)
            else acc))"

text \<open>The location loop of the location and comparison plans.\<close>

definition city_lookup ::
  "GraphQueries \<Rightarrow> nat \<Rightarrow> plan_result \<Rightarrow> string \<Rightarrow> plan_result" where
  "city_lookup queries limit acc location =
     (case acc of (context_parts, srcs, count) \<Rightarrow>
        (let company_rows = city_companies_of queries location limit
         in if company_rows \<noteq> []
            then (context_parts @ [format_city_companies location company_rows],
                  srcs @ [''city:'' @ location],
                  count + length company_rows)
            else acc))"

definition build_company_context :: "GraphQueries \<Rightarrow> ExtractedEntities \<Rightarrow> plan_result" where
  "build_company_context queries entities =
     (let acc = ([], [], 0);
          acc = foldl (company_lookup queries) acc (take 3 (companies entities));
          acc = foldl (portfolio_lookup queries 5) acc (investors entities)
      in acc)"

definition build_investor_context :: "GraphQueries \<Rightarrow> ExtractedEntities \<Rightarrow> plan_result" where
  "build_investor_context queries entities =
     (let acc = ([], [], 0);
          acc = foldl (investor_lookup queries) acc (take 3 (investors entities))
      in if investors entities = []
         then (case acc of (context_parts, srcs, count) \<Rightarrow>
                 (let top_investors = top_investors_of queries 10
                  in if top_investors \<noteq> []
                     then (context_parts @ [format_top_investors top_investors],
                           srcs @ [''top_investors''],
                           count + length top_investors)
                     else acc))
         else acc)"

definition build_sector_context :: "GraphQueries \<Rightarrow> ExtractedEntities \<Rightarrow> plan_result" where
  "build_sector_context queries entities =
     (let acc = ([], [], 0);
          acc = foldl (sector_lookup queries 10) acc (take 3 (sectors entities))
      in case acc of (context_parts, srcs, count) \<Rightarrow>
           (let sector_stats = sector_stats_of queries
            in if sector_stats \<noteq> []
               then (context_parts @ [format_sector_stats sector_stats],
                     srcs @ [''sector_stats''], count)
               else acc))"

definition build_location_context :: "GraphQueries \<Rightarrow> ExtractedEntities \<Rightarrow> plan_result" where
  "build_location_context queries entities =
     (let acc = ([], [], 0);
          acc = foldl (city_lookup queries 10) acc (take 3 (locations entities))
      in case acc of (context_parts, srcs, count) \<Rightarrow>
           (let location_stats = location_stats_of queries
            in if location_stats \<noteq> []
               then (context_parts @ [format_location_stats (take 10 location_stats)],
                     srcs @ [''location_stats''], count)
               else acc))"

definition build_comparison_context :: "GraphQueries \<Rightarrow> ExtractedEntities \<Rightarrow> plan_result" where
  "build_comparison_context queries entities =
     (let acc = ([], [], 0);
          acc = foldl (company_lookup queries) acc (take 5 (companies entities));
          acc = foldl (sector_lookup queries 5) acc (take 3 (sectors entities));
          acc = foldl (city_lookup queries 5) acc (take 3 (locations entities))
      in acc)"

definition build_top_ranking_context :: "GraphQueries \<Rightarrow> ExtractedEntities \<Rightarrow> plan_result" where
  "build_top_ranking_context queries entities =
     (let acc = ([], [], 0);
          top_companies = top_companies_of queries 10;
          acc = (if top_companies \<noteq> []
                 then ([format_top_companies top_companies], [''top_companies''],
                       length top_companies)
                 else acc);
          top_investors = top_investors_of queries 10;
          acc = (case acc of (context_parts, srcs, count) \<Rightarrow>
                   if top_investors \<noteq> []
                   then (context_parts @ [format_top_investors top_investors],
                         srcs @ [''top_investors''],
                         count + length top_investors)
                   else acc)
      in foldl (sector_lookup_top queries 5) acc (take 2 (sectors entities)))"

definition build_aggregation_context :: "GraphQueries \<Rightarrow> ExtractedEntities \<Rightarrow> plan_result" where
  "build_aggregation_context queries entities =
     (let acc = (case graph_stats_of queries of
                   Some stats \<Rightarrow> ([format_graph_stats stats], [''graph_stats''], 1)
                 | None \<Rightarrow> ([], [], 0));
          sector_stats = sector_stats_of queries;
          acc = (case acc of (context_parts, srcs, count) \<Rightarrow>
                   if sector_stats \<noteq> []
                   then (context_parts @ [format_sector_stats sector_stats],
                         srcs @ [''sector_stats''],
                         count + length sector_stats)
                   else acc);
          location_stats = location_stats_of queries
      in case acc of (context_parts, srcs, count) \<Rightarrow>
           if location_stats \<noteq> []
           then (context_parts @ [format_location_stats (take 10 location_stats)],
                 srcs @ [''location_stats''], count)
           else acc)"

definition build_general_context :: "GraphQueries \<Rightarrow> plan_result" where
  "build_general_context queries =
     (let (context_parts, srcs) =
            (case graph_stats_of queries of
               Some stats \<Rightarrow> ([format_graph_stats stats], [''graph_stats''])
             | None \<Rightarrow> ([], []));
          top_companies = top_companies_of queries 5;
          (context_parts, srcs) =
            (if top_companies \<noteq> []
             then (context_parts @ [format_top_companies top_companies],
                   srcs @ [''top_companies''])
             else (context_parts, srcs))
      in (context_parts, srcs, if top_companies \<noteq> [] then length top_companies else 0))"

subsection \<open>\<^verbatim>\<open>build_context\<close>\<close>

text \<open>
  The result of a retrieval. \<^verbatim>\<open>retrieval_time_ms\<close> is a difference of two readings of
  the wall clock; it depends on nothing in the model and is left out.
\<close>

record RetrievalResult =
  "context" :: string
  entities_found :: nat
  sources :: "string list"

text \<open>The plan that \<^verbatim>\<open>build_context\<close> runs for an intent, in the order of its tests.\<close>

definition intent_plan :: "GraphQueries \<Rightarrow> string \<Rightarrow> ExtractedEntities \<Rightarrow> plan_result" where
  "intent_plan queries intent entities =
     (if intent = ''comparison'' then build_comparison_context queries entities
      else if intent = ''top_ranking'' then build_top_ranking_context queries entities
      else if intent = ''aggregation'' then build_aggregation_context queries entities
      else if intent = ''investor_info'' then build_investor_context queries entities
      else if intent = ''sector_info'' then build_sector_context queries entities
      else if intent = ''location_info'' then build_location_context queries entities
      else if intent = ''company_info'' then build_company_context queries entities
      else build_general_context queries)"

text \<open>
  \<^verbatim>\<open>build_context\<close>, for a builder whose \<^verbatim>\<open>_queries\<close> and \<^verbatim>\<open>_retriever\<close> are the first
  two arguments.
\<close>

definition build_context ::
  "GraphQueries \<Rightarrow> GraphRetriever \<Rightarrow> string \<Rightarrow> py_error + RetrievalResult" where
  "build_context queries retriever user_query =
     (case extract_entities retriever user_query of
        Inl err \<Rightarrow> Inl err
      | Inr entities \<Rightarrow>
          (let intent = get_query_intent entities;
               plan = intent_plan queries intent entities;
               plan = (if fst plan = [] then build_general_context queries else plan)
           in case plan of (context_parts, srcs, found) \<Rightarrow>
                Inr \<lparr>context = join (NL @ NL) context_parts,
                     entities_found = found,
                     sources = srcs\<rparr>))"

subsection \<open>What a plan retrieves\<close>

text \<open>The number of rows that a list lookup returns over a list of names.\<close>

definition rows_of :: "(string \<Rightarrow> 'a list) \<Rightarrow> string list \<Rightarrow> nat" where
  "rows_of lookup names = sum_list (map (\<lambda>n. length (lookup n)) names)"

text \<open>
  The rows that the top-ranking plan retrieves, as the specification counts them: the
  rows of every list-shaped result of the plan.
\<close>

definition top_ranking_rows_retrieved :: "GraphQueries \<Rightarrow> ExtractedEntities \<Rightarrow> nat" where
  "top_ranking_rows_retrieved queries entities =
     length (top_companies_of queries 10) + length (top_investors_of queries 10) +
     rows_of (\<lambda>n. sector_companies_of queries n 5) (take 2 (sectors entities))"

subsection \<open>A small store\<close>

definition example_queries :: GraphQueries where
  "example_queries =
     \<lparr>company_details_of = (\<lambda>name.
        if in_str (lower name) ''flipkart''
        then Some \<lparr>d_company = PStr ''Flipkart'', d_valuation = PFloat ''37.6'',
                   d_entryValuation = PFloat ''1.0'', d_entryDate = PStr ''Feb/2012'',
                   d_rank = PInt 1, d_sector = PStr ''E-Commerce'', d_subsector = PNone,
                   d_locations = [''Bangalore''],
                   d_investors = [''Accel'', ''Tiger Global'']\<rparr>
        else None),
      investor_portfolio_of = (\<lambda>name limit. []),
      co_investors_of = (\<lambda>name limit. []),
      top_investors_of = (\<lambda>limit. take limit
        [\<lparr>ti_investor = PStr ''Tiger Global'', ti_investments = PInt 20,
          ti_portfolioValue = PFloat ''85.3''\<rparr>]),
      sector_companies_of = (\<lambda>name limit.
        if in_str (lower name) ''fintech''
        then take limit
          [\<lparr>sc_company = PStr ''Razorpay'', sc_valuation = PFloat ''7.5'',
            sc_subsector = PStr ''Payments''\<rparr>,
           \<lparr>sc_company = PStr ''CRED'', sc_valuation = PFloat ''6.4'',
            sc_subsector = PNone\<rparr>]
        else []),
      city_companies_of = (\<lambda>name limit. []),
      top_companies_of = (\<lambda>limit. take limit
        [\<lparr>c_company = PStr ''Flipkart'', c_valuation = PFloat ''37.6'',
          c_sector = PStr ''E-Commerce''\<rparr>]),
      sector_stats_of = [],
      location_stats_of = [],
      graph_stats_of =
        Some \<lparr>g_companies = PInt 102, g_investors = PInt 300, g_sectors = PInt 15,
              g_locations = PInt 14, g_relationships = PInt 900\<rparr>\<rparr>"

section \<open>The query layer: \<^verbatim>\<open>get_sector_companies\<close> of \<^verbatim>\<open>src/database/queries.py\<close>\<close>

text \<open>
  The method hands a fixed Cypher query to the store. The model is that query read over
  the part of the graph it touches: the company nodes with their properties, and the
  \<^verbatim>\<open>OPERATES_IN\<close> and \<^verbatim>\<open>SPECIALIZES_IN\<close> relationships, each from a company node to
  the name of a sector or sub-sector node. A valuation is the number stored, or null.
\<close>

record company_node =
  name :: string
  rank :: "int option"
  entryValuation :: "rat option"
  currentValuation :: "rat option"
  entryDate :: "string option"

record graph =
  OPERATES_IN :: "(company_node \<times> string) list"
  SPECIALIZES_IN :: "(company_node \<times> string) list"

text \<open>A record of the result: the aliases of the \<^verbatim>\<open>RETURN\<close> clause.\<close>

record sector_record =
  company :: string
  valuation :: "rat option"
  subsector :: "string option"

text \<open>What the driver raises when the store rejects the query.\<close>

datatype store_error = ClientError

text \<open>
  \<^verbatim>\<open>ORDER BY ... DESC\<close>: larger values first, null before every value. Cypher leaves
  the order of equal keys to the store; here they keep the order of the match.
\<close>

definition desc_before :: "rat option \<Rightarrow> rat option \<Rightarrow> bool" where
  "desc_before a b =
     (case a of
        None \<Rightarrow> True
      | Some x \<Rightarrow> (case b of None \<Rightarrow> False | Some y \<Rightarrow> y \<le> x))"

fun insert_desc :: "sector_record \<Rightarrow> sector_record list \<Rightarrow> sector_record list" where
  "insert_desc r [] = [r]"
| "insert_desc r (x # xs) =
     (if desc_before (valuation r) (valuation x) then r # x # xs else x # insert_desc r xs)"

definition order_by_valuation_desc :: "sector_record list \<Rightarrow> sector_record list" where
  "order_by_valuation_desc rs = foldr insert_desc rs []"

text \<open>
  \<^verbatim>\<open>MATCH (c:Company)-[:OPERATES_IN]->(s:Sector) WHERE toLower(s.name) CONTAINS
  toLower($sector)\<close>
\<close>

definition match_sector :: "graph \<Rightarrow> string \<Rightarrow> (company_node \<times> string) list" where
  "match_sector g sector_name =
     filter (\<lambda>(c, s). in_str (lower sector_name) (lower s)) (OPERATES_IN g)"

text \<open>
  \<^verbatim>\<open>OPTIONAL MATCH (c)-[:SPECIALIZES_IN]->(ss:SubSector)\<close>: one row for each
  sub-sector of the company, or one row with null when it has none.
\<close>

definition optional_subsector :: "graph \<Rightarrow> company_node \<Rightarrow> (company_node \<times> string option) list" where
  "optional_subsector g c =
     (let found = map snd (filter (\<lambda>(c', ss). c' = c) (SPECIALIZES_IN g))
      in if found = [] then [(c, None)] else map (\<lambda>ss. (c, Some ss)) found)"

text \<open>
  \<^verbatim>\<open>get_sector_companies(sector_name, limit)\<close> on a store that holds the graph. The store
  rejects a negative \<^verbatim>\<open>LIMIT\<close>; otherwise it returns the first \<^verbatim>\<open>limit\<close> records.
\<close>

definition get_sector_companies ::
  "graph \<Rightarrow> string \<Rightarrow> int \<Rightarrow> store_error + sector_record list" where
  "get_sector_companies g sector_name limit =
     (let matched = match_sector g sector_name;
          rows = concat (map (\<lambda>(c, s). optional_subsector g c) matched);
          returned = map (\<lambda>(c, ss). \<lparr>company = name c, valuation = currentValuation c,
                                      subsector = ss\<rparr>) rows;
          ordered = order_by_valuation_desc returned
      in if limit < 0
         then Inl ClientError
         else Inr (take (nat limit) ordered))"

subsection \<open>A graph with seven fintech companies\<close>

definition node :: "string \<Rightarrow> rat \<Rightarrow> company_node" where
  "node n v = \<lparr>name = n, rank = None, entryValuation = None, currentValuation = Some v,
              entryDate = None\<rparr>"

definition example_graph :: graph where
  "example_graph =
     \<lparr>OPERATES_IN =
        [(node ''CRED'' (64 / 10), ''Fintech''),
         (node ''Razorpay'' (75 / 10), ''Fintech''),
         (node ''Flipkart'' (376 / 10), ''E-Commerce''),
         (node ''PhonePe'' 12, ''Fintech''),
         (node ''Groww'' 3, ''Fintech''),
         (node ''Pine Labs'' 5, ''Fintech''),
         (node ''Zerodha'' 2, ''Fintech''),
         (node ''Paytm'' 16, ''Fintech'')],
      SPECIALIZES_IN =
        [(node ''Razorpay'' (75 / 10), ''Payments''),
         (node ''Paytm'' 16, ''Payments'')]\<rparr>"

section \<open>Properties of the extractor and the classifier\<close>

lemma startswith_iff: "startswith s kw \<longleftrightarrow> (\<exists>ss. s = kw @ ss)"
  by (induction s kw rule: startswith.induct) auto

lemma in_str_iff: "in_str kw s \<longleftrightarrow> (\<exists>ps ss. s = ps @ kw @ ss)"
proof (induction s)
  case Nil
  then show ?case by auto
next
  case (Cons c cs)
  show ?case
  proof
    assume "in_str kw (c # cs)"
    then consider "startswith (c # cs) kw" | "in_str kw cs" by auto
    then show "\<exists>ps ss. c # cs = ps @ kw @ ss"
    proof cases
      case 1
      then obtain ss where "c # cs = kw @ ss" by (auto simp: startswith_iff)
      then have "c # cs = [] @ kw @ ss" by simp
      then show ?thesis by blast
    next
      case 2
      then obtain ps ss where "cs = ps @ kw @ ss" using Cons.IH by blast
      then have "c # cs = (c # ps) @ kw @ ss" by simp
      then show ?thesis by blast
    qed
  next
    assume "\<exists>ps ss. c # cs = ps @ kw @ ss"
    then obtain ps ss where eq: "c # cs = ps @ kw @ ss" by blast
    show "in_str kw (c # cs)"
    proof (cases ps)
      case Nil
      then have "startswith (c # cs) kw" using eq by (auto simp: startswith_iff)
      then show ?thesis by simp
    next
      case (Cons p ps')
      then have "cs = ps' @ kw @ ss" using eq by simp
      then have "in_str kw cs" using Cons.IH by blast
      then show ?thesis by simp
    qed
  qed
qed

lemma foldl_investor_step:
  "foldl (investor_step ql) e ks =
     e\<lparr>investors := investors e @ map title (filter (\<lambda>k. in_str k ql) ks),
       query_types := (if any_in ks ql then insert INVESTOR (query_types e) else query_types e)\<rparr>"
  by (induction ks arbitrary: e) (auto simp: investor_step_def add_type_def any_in_def)

lemma foldl_sector_step:
  "foldl (sector_step ql) e ks =
     e\<lparr>sectors := sectors e @ map title (filter (\<lambda>k. in_str k ql) ks),
       query_types := (if any_in ks ql then insert SECTOR (query_types e) else query_types e)\<rparr>"
  by (induction ks arbitrary: e) (auto simp: sector_step_def add_type_def any_in_def)

lemma foldl_location_step:
  "foldl (location_step ql) e ks =
     e\<lparr>locations := locations e @ map title (filter (\<lambda>k. in_str k ql) ks),
       query_types := (if any_in ks ql then insert LOCATION (query_types e) else query_types e)\<rparr>"
  by (induction ks arbitrary: e) (auto simp: location_step_def add_type_def any_in_def)

text \<open>On non-empty words the loop never raises, and it is a filter.\<close>

lemma company_loop_closed:
  "list_all (\<lambda>w. w \<noteq> []) ws \<Longrightarrow>
   company_loop self ws e =
     Inr (e\<lparr>companies := companies e @ filter (company_candidate self) ws,
            query_types := (if filter (company_candidate self) ws = [] then query_types e
                            else insert COMPANY (query_types e))\<rparr>)"
proof (induction ws arbitrary: e)
  case Nil
  then show ?case by simp
next
  case (Cons w ws)
  then obtain c cs where w: "w = c # cs" by (cases w) auto
  have rest: "list_all (\<lambda>w. w \<noteq> []) ws" using Cons.prems by simp
  show ?case
  proof (cases "company_candidate self w")
    case True
    then show ?thesis
      using Cons.IH [OF rest] w by (auto simp: company_candidate_def add_type_def Let_def)
  next
    case False
    then show ?thesis
      using Cons.IH [OF rest] w by (auto simp: company_candidate_def add_type_def Let_def)
  qed
qed

lemma keywords_nonempty: "list_all (\<lambda>w. w \<noteq> []) (keywords_of query)"
  by (auto simp: keywords_of_def list_all_iff)

lemma candidates_of_keywords:
  "filter (company_candidate self) (keywords_of query) =
   filter (company_candidate self) (words_of query)"
  by (auto simp: keywords_of_def company_candidate_def intro: filter_cong)

text \<open>What \<^const>\<open>extract_entities\<close> returns, field by field; it raises on no query.\<close>

lemma extract_entities_closed:
  "extract_entities self query =
     Inr \<lparr>companies = filter (company_candidate self) (words_of query),
          investors = map title (filter (\<lambda>k. in_str k (lower query)) (KNOWN_INVESTORS self)),
          sectors = map title (filter (\<lambda>k. in_str k (lower query)) (KNOWN_SECTORS self)),
          locations = map title (filter (\<lambda>k. in_str k (lower query)) (KNOWN_LOCATIONS self)),
          query_types = type_tags self query,
          is_comparison = any_in COMPARISON_KEYWORDS (lower query),
          is_aggregation = any_in AGGREGATION_KEYWORDS (lower query),
          is_top_query = any_in TOP_KEYWORDS (lower query)\<rparr>"
  unfolding extract_entities_def Let_def
  by (simp add: company_loop_closed [OF keywords_nonempty] foldl_investor_step
      foldl_sector_step foldl_location_step candidates_of_keywords
      ExtractedEntities_new_def add_type_def type_tags_def)
     (auto simp: type_tags_def)

text \<open>
  The order in which the gazetteers are iterated shows only in the order of the investor,
  sector and location lists.
\<close>

lemma iteration_order_irrelevant:
  assumes "iteration_of self"
    and "extract_entities self query = Inr entities"
    and "extract_entities GraphRetriever_class query = Inr entities'"
  shows "companies entities = companies entities' \<and>
         query_types entities = query_types entities' \<and>
         get_query_intent entities = get_query_intent entities' \<and>
         set (investors entities) = set (investors entities') \<and>
         set (sectors entities) = set (sectors entities') \<and>
         set (locations entities) = set (locations entities')"
proof -
  have sets: "set (KNOWN_INVESTORS self) = set (KNOWN_INVESTORS GraphRetriever_class)"
    "set (KNOWN_SECTORS self) = set (KNOWN_SECTORS GraphRetriever_class)"
    "set (KNOWN_LOCATIONS self) = set (KNOWN_LOCATIONS GraphRetriever_class)"
    using assms(1) by (simp_all add: iteration_of_def)
  have cand: "company_candidate self = company_candidate GraphRetriever_class"
    by (rule ext) (simp add: company_candidate_def sets)
  have any: "any_in (KNOWN_INVESTORS self) s = any_in (KNOWN_INVESTORS GraphRetriever_class) s"
    "any_in (KNOWN_SECTORS self) s = any_in (KNOWN_SECTORS GraphRetriever_class) s"
    "any_in (KNOWN_LOCATIONS self) s = any_in (KNOWN_LOCATIONS GraphRetriever_class) s" for s
    by (simp_all add: any_in_def list_ex_iff sets)
  have tags: "type_tags self query = type_tags GraphRetriever_class query"
    by (simp add: type_tags_def cand any)
  have e: "entities =
     \<lparr>companies = filter (company_candidate self) (words_of query),
      investors = map title (filter (\<lambda>k. in_str k (lower query)) (KNOWN_INVESTORS self)),
      sectors = map title (filter (\<lambda>k. in_str k (lower query)) (KNOWN_SECTORS self)),
      locations = map title (filter (\<lambda>k. in_str k (lower query)) (KNOWN_LOCATIONS self)),
      query_types = type_tags self query,
      is_comparison = any_in COMPARISON_KEYWORDS (lower query),
      is_aggregation = any_in AGGREGATION_KEYWORDS (lower query),
      is_top_query = any_in TOP_KEYWORDS (lower query)\<rparr>"
    using assms(2) by (simp add: extract_entities_closed)
  have e': "entities' =
     \<lparr>companies = filter (company_candidate GraphRetriever_class) (words_of query),
      investors = map title (filter (\<lambda>k. in_str k (lower query))
                    (KNOWN_INVESTORS GraphRetriever_class)),
      sectors = map title (filter (\<lambda>k. in_str k (lower query))
                  (KNOWN_SECTORS GraphRetriever_class)),
      locations = map title (filter (\<lambda>k. in_str k (lower query))
                    (KNOWN_LOCATIONS GraphRetriever_class)),
      query_types = type_tags GraphRetriever_class query,
      is_comparison = any_in COMPARISON_KEYWORDS (lower query),
      is_aggregation = any_in AGGREGATION_KEYWORDS (lower query),
      is_top_query = any_in TOP_KEYWORDS (lower query)\<rparr>"
    using assms(3) by (simp add: extract_entities_closed)
  show ?thesis
    by (simp add: e e' cand tags sets get_query_intent_def)
qed

text \<open>
  The extractor on the heap computes what \<^const>\<open>extract_entities\<close> computes from the
  gazetteers found in the heap. It writes only to the five objects it creates, which lie
  at the first unused addresses.
\<close>

lemma append_at_simps:
  "fresh (append_at a x h) = fresh h"
  "list_at (append_at a x h) a = list_at h a @ [x]"
  "b \<noteq> a \<Longrightarrow> objects (append_at a x h) b = objects h b"
  "b \<noteq> a \<Longrightarrow> list_at (append_at a x h) b = list_at h b"
  "b \<noteq> a \<Longrightarrow> types_at (append_at a x h) b = types_at h b"
  by (simp_all add: append_at_def list_at_def types_at_def)

lemma add_at_simps:
  "fresh (add_at a t h) = fresh h"
  "types_at (add_at a t h) a = insert t (types_at h a)"
  "b \<noteq> a \<Longrightarrow> objects (add_at a t h) b = objects h b"
  "b \<noteq> a \<Longrightarrow> list_at (add_at a t h) b = list_at h b"
  "b \<noteq> a \<Longrightarrow> types_at (add_at a t h) b = types_at h b"
  by (simp_all add: add_at_def list_at_def types_at_def)

lemma investor_step_heap_value:
  assumes "distinct (refs_of e)"
  shows "entities_value (investor_step_heap ql e h k) e = investor_step ql (entities_value h e) k"
    and "fresh (investor_step_heap ql e h k) = fresh h"
    and "a \<notin> set (refs_of e) \<Longrightarrow> objects (investor_step_heap ql e h k) a = objects h a"
  using assms
  by (auto simp: investor_step_heap_def investor_step_def entities_value_def add_type_def
      refs_of_def append_at_simps add_at_simps)

lemma sector_step_heap_value:
  assumes "distinct (refs_of e)"
  shows "entities_value (sector_step_heap ql e h k) e = sector_step ql (entities_value h e) k"
    and "fresh (sector_step_heap ql e h k) = fresh h"
    and "a \<notin> set (refs_of e) \<Longrightarrow> objects (sector_step_heap ql e h k) a = objects h a"
  using assms
  by (auto simp: sector_step_heap_def sector_step_def entities_value_def add_type_def
      refs_of_def append_at_simps add_at_simps)

lemma location_step_heap_value:
  assumes "distinct (refs_of e)"
  shows "entities_value (location_step_heap ql e h k) e = location_step ql (entities_value h e) k"
    and "fresh (location_step_heap ql e h k) = fresh h"
    and "a \<notin> set (refs_of e) \<Longrightarrow> objects (location_step_heap ql e h k) a = objects h a"
  using assms
  by (auto simp: location_step_heap_def location_step_def entities_value_def add_type_def
      refs_of_def append_at_simps add_at_simps)

lemma foldl_heap_steps:
  assumes val: "\<And>h k. entities_value (step_heap h k) e = step (entities_value h e) k"
    and fr: "\<And>h k. fresh (step_heap h k) = fresh h"
    and frame: "\<And>h k a. a \<notin> set (refs_of e) \<Longrightarrow> objects (step_heap h k) a = objects h a"
  shows "entities_value (foldl step_heap h ks) e = foldl step (entities_value h e) ks \<and>
         fresh (foldl step_heap h ks) = fresh h \<and>
         (\<forall>a. a \<notin> set (refs_of e) \<longrightarrow> objects (foldl step_heap h ks) a = objects h a)"
  by (induction ks arbitrary: h) (simp_all add: val fr frame)

lemma company_loop_heap_value:
  assumes "distinct (refs_of e)"
    and "KNOWN_INVESTORS_ref self \<notin> set (refs_of e)"
    and "KNOWN_SECTORS_ref self \<notin> set (refs_of e)"
    and "KNOWN_LOCATIONS_ref self \<notin> set (refs_of e)"
  shows "(case company_loop_heap self e ws h of
            (None, h') \<Rightarrow>
              company_loop (retriever_value h self) ws (entities_value h e) =
                Inr (entities_value h' e)
          | (Some err, h') \<Rightarrow>
              company_loop (retriever_value h self) ws (entities_value h e) = Inl err) \<and>
         fresh (snd (company_loop_heap self e ws h)) = fresh h \<and>
         (\<forall>a. a \<notin> set (refs_of e) \<longrightarrow>
            objects (snd (company_loop_heap self e ws h)) a = objects h a)"
proof (induction ws arbitrary: h)
  case Nil
  then show ?case by simp
next
  case (Cons w ws)
  let ?h = "add_at (query_types_ref e) COMPANY (append_at (companies_ref e) w h)"
  have refs: "companies_ref e \<noteq> query_types_ref e"
    "KNOWN_INVESTORS_ref self \<noteq> companies_ref e" "KNOWN_INVESTORS_ref self \<noteq> query_types_ref e"
    "KNOWN_SECTORS_ref self \<noteq> companies_ref e" "KNOWN_SECTORS_ref self \<noteq> query_types_ref e"
    "KNOWN_LOCATIONS_ref self \<noteq> companies_ref e" "KNOWN_LOCATIONS_ref self \<noteq> query_types_ref e"
    using assms by (auto simp: refs_of_def)
  have r: "retriever_value ?h self = retriever_value h self"
    using refs by (simp add: retriever_value_def append_at_simps add_at_simps)
  have v: "entities_value ?h e =
      add_type COMPANY ((entities_value h e)\<lparr>companies := companies (entities_value h e) @ [w]\<rparr>)"
    using assms(1)
    by (auto simp: entities_value_def add_type_def refs_of_def append_at_simps add_at_simps)
  have f: "fresh ?h = fresh h" by (simp add: append_at_simps add_at_simps)
  have mem: "KNOWN_INVESTORS (retriever_value h self) = list_at h (KNOWN_INVESTORS_ref self)"
    "KNOWN_SECTORS (retriever_value h self) = list_at h (KNOWN_SECTORS_ref self)"
    "KNOWN_LOCATIONS (retriever_value h self) = list_at h (KNOWN_LOCATIONS_ref self)"
    by (simp_all add: retriever_value_def)
  have o: "a \<notin> set (refs_of e) \<Longrightarrow> objects ?h a = objects h a" for a
    by (auto simp: refs_of_def append_at_simps add_at_simps)
  show ?case
  proof (cases "w = []")
    case True
    then show ?thesis by simp
  next
    case False
    then obtain c cs where wc: "w = c # cs" by (cases w) auto
    show ?thesis
    proof (cases "isupper c \<and>
             lower w \<notin> set (list_at h (KNOWN_INVESTORS_ref self)) \<and>
             lower w \<notin> set (list_at h (KNOWN_SECTORS_ref self)) \<and>
             lower w \<notin> set (list_at h (KNOWN_LOCATIONS_ref self)) \<and>
             length w > 3")
      case True
      then have step: "company_loop_heap self e (w # ws) h = company_loop_heap self e ws ?h"
        using wc by (simp add: Let_def)
      have "company_loop (retriever_value h self) (w # ws) (entities_value h e) =
          company_loop (retriever_value h self) ws
            (add_type COMPANY
               ((entities_value h e)\<lparr>companies := companies (entities_value h e) @ [w]\<rparr>))"
        using True wc by (simp add: Let_def mem)
      then have pure: "company_loop (retriever_value h self) (w # ws) (entities_value h e) =
          company_loop (retriever_value ?h self) ws (entities_value ?h e)"
        by (simp only: r v)
      show ?thesis
        unfolding step pure using Cons.IH [of ?h] by (simp add: f o)
    next
      case False
      then have step: "company_loop_heap self e (w # ws) h = company_loop_heap self e ws h"
        using wc by (auto simp: Let_def)
      have pure: "company_loop (retriever_value h self) (w # ws) (entities_value h e) =
          company_loop (retriever_value h self) ws (entities_value h e)"
        using False wc by (auto simp: Let_def mem)
      show ?thesis
        unfolding step pure using Cons.IH [of h] by simp
    qed
  qed
qed


lemma new_entities_value:
  assumes "new_entities h = (e, h')"
  shows "refs_of e = [fresh h, fresh h + 1, fresh h + 2, fresh h + 3, fresh h + 4]"
    and "entities_value h' e = ExtractedEntities_new"
    and "fresh h' = fresh h + 5"
    and "a < fresh h \<Longrightarrow> objects h' a = objects h a"
  using assms
  by (auto simp: new_entities_def new_object_def refs_of_def entities_value_def
      ExtractedEntities_new_def list_at_def types_at_def Let_def)

lemma entities_value_flags:
  "entities_value h (e\<lparr>is_comparison_attr := b\<rparr>) = (entities_value h e)\<lparr>is_comparison := b\<rparr>"
  "entities_value h (e\<lparr>is_aggregation_attr := b\<rparr>) = (entities_value h e)\<lparr>is_aggregation := b\<rparr>"
  "entities_value h (e\<lparr>is_top_query_attr := b\<rparr>) = (entities_value h e)\<lparr>is_top_query := b\<rparr>"
  "refs_of (e\<lparr>is_comparison_attr := b\<rparr>) = refs_of e"
  "refs_of (e\<lparr>is_aggregation_attr := b\<rparr>) = refs_of e"
  "refs_of (e\<lparr>is_top_query_attr := b\<rparr>) = refs_of e"
  by (simp_all add: entities_value_def refs_of_def)

lemma add_tag_value:
  assumes "distinct (refs_of e)"
  shows "entities_value (add_at (query_types_ref e) t h) e = add_type t (entities_value h e)"
    and "a \<notin> set (refs_of e) \<Longrightarrow> objects (add_at (query_types_ref e) t h) a = objects h a"
  using assms
  by (auto simp: entities_value_def add_type_def refs_of_def add_at_simps)


lemma extract_entities_heap_refines:
  assumes alloc: "KNOWN_INVESTORS_ref self < fresh h" "KNOWN_SECTORS_ref self < fresh h"
      "KNOWN_LOCATIONS_ref self < fresh h"
    and run: "extract_entities_heap self query h = (res, h')"
  shows "map_sum id (entities_value h') res = extract_entities (retriever_value h self) query \<and>
         fresh h' = fresh h + 5 \<and>
         (\<forall>a. a < fresh h \<longrightarrow> objects h' a = objects h a) \<and>
         (\<forall>entities. res = Inr entities \<longrightarrow>
            refs_of entities = [fresh h, fresh h + 1, fresh h + 2, fresh h + 3, fresh h + 4])"
proof -
  let ?ql = "lower query"
  obtain e0 h0 where ne: "new_entities h = (e0, h0)" by (cases "new_entities h") auto
  define e where "e = e0\<lparr>is_comparison_attr := any_in COMPARISON_KEYWORDS ?ql,
                         is_aggregation_attr := any_in AGGREGATION_KEYWORDS ?ql,
                         is_top_query_attr := any_in TOP_KEYWORDS ?ql\<rparr>"
  have refs: "refs_of e = [fresh h, fresh h + 1, fresh h + 2, fresh h + 3, fresh h + 4]"
    using new_entities_value(1) [OF ne] by (simp add: e_def entities_value_flags)
  have d: "distinct (refs_of e)" by (simp add: refs)
  have out: "a < fresh h \<Longrightarrow> a \<notin> set (refs_of e)" for a by (auto simp: refs)
  have g: "KNOWN_INVESTORS_ref self \<notin> set (refs_of e)" "KNOWN_SECTORS_ref self \<notin> set (refs_of e)"
    "KNOWN_LOCATIONS_ref self \<notin> set (refs_of e)"
    using alloc out by blast+
  define v0 where "v0 = ExtractedEntities_new
      \<lparr>is_comparison := any_in COMPARISON_KEYWORDS ?ql,
       is_aggregation := any_in AGGREGATION_KEYWORDS ?ql,
       is_top_query := any_in TOP_KEYWORDS ?ql\<rparr>"
  have s0: "entities_value h0 e = v0" "fresh h0 = fresh h + 5"
    "\<And>a. a < fresh h \<Longrightarrow> objects h0 a = objects h a"
    using new_entities_value [OF ne] by (simp_all add: e_def v0_def entities_value_flags)
  define h1 where "h1 = (if any_in INVESTOR_KEYWORDS ?ql
                         then add_at (query_types_ref e) INVESTOR h0 else h0)"
  define v1 where "v1 = (if any_in INVESTOR_KEYWORDS ?ql then add_type INVESTOR v0 else v0)"
  have s1: "entities_value h1 e = v1" "fresh h1 = fresh h + 5"
    "\<And>a. a < fresh h \<Longrightarrow> objects h1 a = objects h a"
    using s0 add_tag_value [OF d] out by (simp_all add: h1_def v1_def add_at_simps)
  define h2 where "h2 = (if any_in SECTOR_KEYWORDS ?ql
                         then add_at (query_types_ref e) SECTOR h1 else h1)"
  define v2 where "v2 = (if any_in SECTOR_KEYWORDS ?ql then add_type SECTOR v1 else v1)"
  have s2: "entities_value h2 e = v2" "fresh h2 = fresh h + 5"
    "\<And>a. a < fresh h \<Longrightarrow> objects h2 a = objects h a"
    using s1 add_tag_value [OF d] out by (simp_all add: h2_def v2_def add_at_simps)
  define h3 where "h3 = (if any_in LOCATION_KEYWORDS ?ql
                         then add_at (query_types_ref e) LOCATION h2 else h2)"
  define v3 where "v3 = (if any_in LOCATION_KEYWORDS ?ql then add_type LOCATION v2 else v2)"
  have s3: "entities_value h3 e = v3" "fresh h3 = fresh h + 5"
    "\<And>a. a < fresh h \<Longrightarrow> objects h3 a = objects h a"
    using s2 add_tag_value [OF d] out by (simp_all add: h3_def v3_def add_at_simps)
  have lists: "list_at k b = list_at h b"
    if "\<And>a. a < fresh h \<Longrightarrow> objects k a = objects h a" and "b < fresh h" for k b
    using that by (simp add: list_at_def)
  define h4 where "h4 = foldl (investor_step_heap ?ql e) h3 (list_at h3 (KNOWN_INVESTORS_ref self))"
  define v4 where "v4 = foldl (investor_step ?ql) v3 (KNOWN_INVESTORS (retriever_value h self))"
  have s4: "entities_value h4 e = v4" "fresh h4 = fresh h + 5"
    "\<And>a. a < fresh h \<Longrightarrow> objects h4 a = objects h a"
    using foldl_heap_steps [of "investor_step_heap ?ql e" e "investor_step ?ql" h3
        "list_at h3 (KNOWN_INVESTORS_ref self)", OF investor_step_heap_value [OF d]]
      s3 out lists [of h3, OF s3(3) alloc(1)]
    by (simp_all add: h4_def v4_def retriever_value_def)
  define h5 where "h5 = foldl (sector_step_heap ?ql e) h4 (list_at h4 (KNOWN_SECTORS_ref self))"
  define v5 where "v5 = foldl (sector_step ?ql) v4 (KNOWN_SECTORS (retriever_value h self))"
  have s5: "entities_value h5 e = v5" "fresh h5 = fresh h + 5"
    "\<And>a. a < fresh h \<Longrightarrow> objects h5 a = objects h a"
    using foldl_heap_steps [of "sector_step_heap ?ql e" e "sector_step ?ql" h4
        "list_at h4 (KNOWN_SECTORS_ref self)", OF sector_step_heap_value [OF d]]
      s4 out lists [of h4, OF s4(3) alloc(2)]
    by (simp_all add: h5_def v5_def retriever_value_def)
  define h6 where "h6 = foldl (location_step_heap ?ql e) h5 (list_at h5 (KNOWN_LOCATIONS_ref self))"
  define v6 where "v6 = foldl (location_step ?ql) v5 (KNOWN_LOCATIONS (retriever_value h self))"
  have s6: "entities_value h6 e = v6" "fresh h6 = fresh h + 5"
    "\<And>a. a < fresh h \<Longrightarrow> objects h6 a = objects h a"
    using foldl_heap_steps [of "location_step_heap ?ql e" e "location_step ?ql" h5
        "list_at h5 (KNOWN_LOCATIONS_ref self)", OF location_step_heap_value [OF d]]
      s5 out lists [of h5, OF s5(3) alloc(3)]
    by (simp_all add: h6_def v6_def retriever_value_def)
  have same: "retriever_value h6 self = retriever_value h self"
    using lists [of h6, OF s6(3)] alloc by (simp add: retriever_value_def)
  have pure: "extract_entities (retriever_value h self) query =
      company_loop (retriever_value h self) (keywords_of query) v6"
    by (simp add: extract_entities_def Let_def v6_def v5_def v4_def v3_def v2_def v1_def v0_def)
  have heap: "extract_entities_heap self query h =
      (case company_loop_heap self e (keywords_of query) h6 of
         (None, k) \<Rightarrow> (Inr e, k) | (Some err, k) \<Rightarrow> (Inl err, k))"
    unfolding extract_entities_heap_def Let_def ne prod.case h6_def h5_def h4_def h3_def
      h2_def h1_def e_def
    by (rule refl)
  obtain err k where loop: "company_loop_heap self e (keywords_of query) h6 = (err, k)"
    by (cases "company_loop_heap self e (keywords_of query) h6") auto
  have l: "(case err of
              None \<Rightarrow> company_loop (retriever_value h self) (keywords_of query) v6 =
                        Inr (entities_value k e)
            | Some x \<Rightarrow> company_loop (retriever_value h self) (keywords_of query) v6 = Inl x)"
    "fresh k = fresh h + 5" "\<And>a. a < fresh h \<Longrightarrow> objects k a = objects h a"
    using company_loop_heap_value [OF d g, where ws = "keywords_of query" and h = h6] loop same s6 out
    by (auto split: option.splits)
  show ?thesis
  proof (cases err)
    case None
    then have "res = Inr e" "h' = k" using run heap loop by simp_all
    then show ?thesis using l None pure refs by simp
  next
    case (Some x)
    then have "res = Inl x" "h' = k" using run heap loop by simp_all
    then show ?thesis using l Some pure by simp
  qed
qed


lemma entities_value_cong:
  assumes "\<And>a. a \<in> set (refs_of e) \<Longrightarrow> objects k a = objects k' a"
  shows "entities_value k e = entities_value k' e"
  using assms by (simp add: entities_value_def refs_of_def list_at_def types_at_def)

section \<open>Claims about the extractor and the classifier\<close>

text \<open>
  C1. For every query whose lower-cased form contains a comparison keyword (compare, vs,
  versus, difference, between) as a substring, the intent that \<^const>\<open>get_query_intent\<close>
  gives for the extracted entities is \<^verbatim>\<open>comparison\<close>, whatever other flags and type tags
  the extraction has set.
\<close>

theorem comparison_keyword_wins:
  assumes "kw \<in> set COMPARISON_KEYWORDS" and "lower query = ps @ kw @ ss"
  shows "\<exists>entities. extract_entities self query = Inr entities \<and>
           get_query_intent entities = ''comparison''"
proof -
  have "in_str kw (lower query)" using assms(2) by (auto simp: in_str_iff)
  then have "any_in COMPARISON_KEYWORDS (lower query)"
    using assms(1) by (auto simp: any_in_def list_ex_iff)
  then show ?thesis
    by (simp add: extract_entities_closed get_query_intent_def)
qed

theorem comparison_keyword_wins_witness:
  "''vs'' \<in> set COMPARISON_KEYWORDS \<and>
   lower ''Fintech VS top investor total'' = ''fintech '' @ ''vs'' @ '' top investor total'' \<and>
   (\<exists>entities. extract_entities GraphRetriever_class ''Fintech VS top investor total'' = Inr entities \<and>
      is_aggregation entities \<and> is_top_query entities \<and> INVESTOR \<in> query_types entities \<and>
      SECTOR \<in> query_types entities \<and>
      get_query_intent entities = ''comparison'')"
proof -
  have k: "''vs'' \<in> set COMPARISON_KEYWORDS" by (simp add: COMPARISON_KEYWORDS_def)
  have l: "lower ''Fintech VS top investor total'' = ''fintech '' @ ''vs'' @ '' top investor total''"
    by code_simp
  obtain entities where e: "extract_entities GraphRetriever_class ''Fintech VS top investor total'' = Inr entities"
    and i: "get_query_intent entities = ''comparison''"
    using comparison_keyword_wins [OF k l, of GraphRetriever_class] by blast
  have v: "extract_entities GraphRetriever_class ''Fintech VS top investor total'' =
     Inr \<lparr>companies = [], investors = [], sectors = [''Fintech''], locations = [],
          query_types = {SECTOR, INVESTOR}, is_comparison = True,
          is_aggregation = True, is_top_query = True\<rparr>"
    by code_simp
  show ?thesis using k l e i v by auto
qed

text \<open>
  C4. For every query, the company candidates are exactly the whitespace-separated tokens,
  stripped of the punctuation \<^verbatim>\<open>?,.'"!()\<close> at both ends, that are longer than 3
  characters, start with an upper-case character and whose lower-cased form is in none of
  the three gazetteers; they are appended as they stand, in the order of the query. Tokens
  of length at most 2 are dropped from the keyword list, and no token of length at most 3
  is a candidate.
\<close>

theorem company_candidates_exact:
  "\<exists>entities. extract_entities self query = Inr entities \<and>
     companies entities =
       filter (company_candidate self) (map (strip strip_chars) (split query)) \<and>
     list_all (\<lambda>w. length w > 3) (companies entities) \<and>
     list_all (\<lambda>w. length w > 2) (keywords_of query)"
  by (simp add: extract_entities_closed words_of_def keywords_of_def list_all_iff
      company_candidate_def)

theorem company_candidates_exact_witness:
  "\<exists>entities. extract_entities GraphRetriever_class ''is Zomato Ltd. bigger than (Ola) and Delhi?'' = Inr entities \<and>
     companies entities = [''Zomato''] \<and>
     filter (company_candidate GraphRetriever_class)
       (map (strip strip_chars) (split ''is Zomato Ltd. bigger than (Ola) and Delhi?'')) = [''Zomato'']"
proof -
  have v: "filter (company_candidate GraphRetriever_class)
       (map (strip strip_chars) (split ''is Zomato Ltd. bigger than (Ola) and Delhi?'')) = [''Zomato'']"
    by code_simp
  show ?thesis
    using company_candidates_exact [of GraphRetriever_class "''is Zomato Ltd. bigger than (Ola) and Delhi?''"] v
    by auto
qed

text \<open>
  C7. Calling the extractor twice on the same string gives the same value. On any heap in
  which the three gazetteers exist, a first call and then a second call on the heap the
  first one left both return, each a new \<^verbatim>\<open>ExtractedEntities\<close> object, and the two objects
  hold the same value: the one that \<^const>\<open>extract_entities\<close> computes from the query and
  the gazetteers. The second call does not disturb the first result, and no object that
  existed before the calls, the gazetteers among them, is changed.
\<close>

theorem extract_entities_repeatable:
  assumes "KNOWN_INVESTORS_ref self < fresh h"
    and "KNOWN_SECTORS_ref self < fresh h"
    and "KNOWN_LOCATIONS_ref self < fresh h"
    and "extract_entities_heap self query h = (res1, h1)"
    and "extract_entities_heap self query h1 = (res2, h2)"
  shows "(\<exists>e1 e2. res1 = Inr e1 \<and> res2 = Inr e2 \<and>
            entities_value h2 e2 = entities_value h1 e1 \<and>
            entities_value h2 e1 = entities_value h1 e1 \<and>
            Inr (entities_value h1 e1) = extract_entities (retriever_value h self) query) \<and>
         retriever_value h1 self = retriever_value h self \<and>
         retriever_value h2 self = retriever_value h self \<and>
         (\<forall>a. a < fresh h \<longrightarrow> objects h2 a = objects h a)"
proof -
  note first = extract_entities_heap_refines [OF assms(1-4)]
  have f1: "fresh h1 = fresh h + 5" using first by simp
  have o1: "a < fresh h \<Longrightarrow> objects h1 a = objects h a" for a using first by simp
  have r1: "retriever_value h1 self = retriever_value h self"
    using assms(1-3) o1 by (simp add: retriever_value_def list_at_def)
  have alloc1: "KNOWN_INVESTORS_ref self < fresh h1" "KNOWN_SECTORS_ref self < fresh h1"
    "KNOWN_LOCATIONS_ref self < fresh h1"
    using assms(1-3) f1 by simp_all
  note second = extract_entities_heap_refines [OF alloc1 assms(5)]
  have o2: "a < fresh h1 \<Longrightarrow> objects h2 a = objects h1 a" for a using second by simp
  have r2: "retriever_value h2 self = retriever_value h self"
    using alloc1 o2 r1 by (simp add: retriever_value_def list_at_def)
  obtain v where v: "extract_entities (retriever_value h self) query = Inr v"
    by (simp add: extract_entities_closed)
  obtain e1 where e1: "res1 = Inr e1" "entities_value h1 e1 = v"
    using first v by (cases res1) auto
  obtain e2 where e2: "res2 = Inr e2" "entities_value h2 e2 = v"
    using second v r1 by (cases res2) auto
  have "refs_of e1 = [fresh h, fresh h + 1, fresh h + 2, fresh h + 3, fresh h + 4]"
    using first e1(1) by simp
  then have "a \<in> set (refs_of e1) \<Longrightarrow> objects h2 a = objects h1 a" for a
    using o2 [of a] f1 by auto
  then have keep: "entities_value h2 e1 = entities_value h1 e1"
    by (rule entities_value_cong)
  have frame: "\<forall>a. a < fresh h \<longrightarrow> objects h2 a = objects h a"
    using o1 o2 f1 by simp
  show ?thesis using e1 e2 keep v r1 r2 frame by simp
qed

theorem extract_entities_repeatable_witness:
  "KNOWN_INVESTORS_ref class_object < fresh class_heap \<and>
   KNOWN_SECTORS_ref class_object < fresh class_heap \<and>
   KNOWN_LOCATIONS_ref class_object < fresh class_heap \<and>
   retriever_value class_heap class_object = GraphRetriever_class \<and>
   (\<exists>e1 e2 h1 h2.
      extract_entities_heap class_object ''Is CRED backed by accel?'' class_heap = (Inr e1, h1) \<and>
      extract_entities_heap class_object ''Is CRED backed by accel?'' h1 = (Inr e2, h2) \<and>
      entities_value h1 e1 = entities_value h2 e2 \<and>
      entities_value h1 e1 =
        \<lparr>companies = [''CRED''], investors = [''Accel''], sectors = [], locations = [],
         query_types = {COMPANY, INVESTOR}, is_comparison = False, is_aggregation = False,
         is_top_query = False\<rparr>)"
proof -
  let ?q = "''Is CRED backed by accel?''"
  have a: "KNOWN_INVESTORS_ref class_object < fresh class_heap"
    "KNOWN_SECTORS_ref class_object < fresh class_heap"
    "KNOWN_LOCATIONS_ref class_object < fresh class_heap"
    by (simp_all add: class_object_def class_heap_def)
  have c: "retriever_value class_heap class_object = GraphRetriever_class"
    by (simp add: retriever_value_def class_object_def class_heap_def list_at_def
        GraphRetriever_class_def)
  obtain res1 h1 where one: "extract_entities_heap class_object ?q class_heap = (res1, h1)"
    by (cases "extract_entities_heap class_object ?q class_heap") auto
  obtain res2 h2 where two: "extract_entities_heap class_object ?q h1 = (res2, h2)"
    by (cases "extract_entities_heap class_object ?q h1") auto
  have v: "extract_entities GraphRetriever_class ?q =
      Inr \<lparr>companies = [''CRED''], investors = [''Accel''], sectors = [], locations = [],
         query_types = {COMPANY, INVESTOR}, is_comparison = False, is_aggregation = False,
         is_top_query = False\<rparr>"
    by code_simp
  show ?thesis
    using extract_entities_repeatable [OF a one two] a c one two v by auto
qed

section \<open>Properties of the context builder\<close>

text \<open>The blocks of the general plan, and \<^const>\<open>build_context\<close> once the extraction is known.\<close>

lemma general_parts:
  "fst (build_general_context queries) =
     (case graph_stats_of queries of Some stats \<Rightarrow> [format_graph_stats stats] | None \<Rightarrow> []) @
     (if top_companies_of queries 5 \<noteq> []
      then [format_top_companies (top_companies_of queries 5)] else [])"
  by (cases "graph_stats_of queries") (simp_all add: build_general_context_def Let_def)

lemma build_context_unfold:
  assumes "extract_entities retriever user_query = Inr entities"
  shows "build_context queries retriever user_query =
     (let plan = intent_plan queries (get_query_intent entities) entities;
          plan = (if fst plan = [] then build_general_context queries else plan)
      in Inr \<lparr>context = join (NL @ NL) (fst plan),
              entities_found = snd (snd plan),
              sources = fst (snd plan)\<rparr>)"
  by (simp add: build_context_def assms Let_def split: prod.splits)

lemma filter_empty_any: "map f (filter (\<lambda>k. in_str k s) ks) = [] \<longleftrightarrow> \<not> any_in ks s"
  by (auto simp: any_in_def list_ex_iff filter_empty_conv)

section \<open>Claims about the context builder\<close>

text \<open>
  C2. For every query and fixed store answers, if the plan of the query's intent produces
  no block, the context of the result is the context of the general plan: its blocks
  joined with a blank line. The count and the sources are the general plan's as well.
\<close>

theorem empty_plan_falls_back:
  assumes "extract_entities retriever user_query = Inr entities"
    and "fst (intent_plan queries (get_query_intent entities) entities) = []"
  shows "\<exists>result. build_context queries retriever user_query = Inr result \<and>
           context result = join (NL @ NL) (fst (build_general_context queries)) \<and>
           entities_found result = snd (snd (build_general_context queries)) \<and>
           sources result = fst (snd (build_general_context queries))"
  by (simp add: build_context_unfold [OF assms(1)] assms(2) Let_def)

theorem empty_plan_falls_back_witness:
  "extract_entities GraphRetriever_class ''about Zomato'' =
     Inr \<lparr>companies = [''Zomato''], investors = [], sectors = [], locations = [],
          query_types = {COMPANY}, is_comparison = False, is_aggregation = False,
          is_top_query = False\<rparr> \<and>
   get_query_intent
     \<lparr>companies = [''Zomato''], investors = [], sectors = [], locations = [],
      query_types = {COMPANY}, is_comparison = False, is_aggregation = False,
      is_top_query = False\<rparr> = ''company_info'' \<and>
   (\<exists>result. build_context example_queries GraphRetriever_class ''about Zomato'' = Inr result \<and>
      context result = join (NL @ NL) (fst (build_general_context example_queries)))"
proof -
  let ?e = "\<lparr>companies = [''Zomato''], investors = [], sectors = [], locations = [],
          query_types = {COMPANY}, is_comparison = False, is_aggregation = False,
          is_top_query = False\<rparr>"
  have e: "extract_entities GraphRetriever_class ''about Zomato'' = Inr ?e"
    by code_simp
  have i: "get_query_intent ?e = ''company_info''"
    by code_simp
  have p: "fst (intent_plan example_queries (get_query_intent ?e) ?e) = []"
    by code_simp
  show ?thesis
    using empty_plan_falls_back [OF e p] e i by blast
qed

text \<open>
  C3, as the specification states it, fails. The query \<^verbatim>\<open>show investor list\<close> yields
  empty company, investor, sector and location lists and has no shape keyword, but the
  word \<^verbatim>\<open>investor\<close> sets the investor tag: the intent is \<^verbatim>\<open>investor_info\<close> and the
  context is the list of the most active investors, not the general block.
\<close>

theorem context_keyword_counterexample:
  "extract_entities GraphRetriever_class ''show investor list'' =
     Inr \<lparr>companies = [], investors = [], sectors = [], locations = [],
          query_types = {INVESTOR}, is_comparison = False, is_aggregation = False,
          is_top_query = False\<rparr> \<and>
   get_query_intent
     \<lparr>companies = [], investors = [], sectors = [], locations = [],
      query_types = {INVESTOR}, is_comparison = False, is_aggregation = False,
      is_top_query = False\<rparr> = ''investor_info'' \<and>
   ''investor_info'' \<noteq> ''general'' \<and>
   build_context example_queries GraphRetriever_class ''show investor list'' =
     Inr \<lparr>context = ''**Most Active Investors:**'' @ NL @
                     ''1. Tiger Global - 20 investments ($85.3B total)'',
          entities_found = 1, sources = [''top_investors'']\<rparr> \<and>
   ''**Most Active Investors:**'' @ NL @ ''1. Tiger Global - 20 investments ($85.3B total)'' \<noteq>
     join (NL @ NL) (fst (build_general_context example_queries))"
  by code_simp

text \<open>
  C3, amended. For every query for which the extraction yields empty company, investor,
  sector and location lists and which contains no comparison, aggregation or top keyword
  and no investor, sector or location context keyword, the intent is \<^verbatim>\<open>general\<close> and the
  context is the general block: the graph statistics, if the store has them, then the
  top 5 companies, if there are any, joined with a blank line.
\<close>

theorem general_intent_without_signals:
  assumes "extract_entities retriever user_query = Inr entities"
    and "companies entities = []" and "investors entities = []"
    and "sectors entities = []" and "locations entities = []"
    and "\<not> any_in COMPARISON_KEYWORDS (lower user_query)"
    and "\<not> any_in AGGREGATION_KEYWORDS (lower user_query)"
    and "\<not> any_in TOP_KEYWORDS (lower user_query)"
    and "\<not> any_in INVESTOR_KEYWORDS (lower user_query)"
    and "\<not> any_in SECTOR_KEYWORDS (lower user_query)"
    and "\<not> any_in LOCATION_KEYWORDS (lower user_query)"
  shows "get_query_intent entities = ''general'' \<and>
     (\<exists>result. build_context queries retriever user_query = Inr result \<and>
        context result =
          join (NL @ NL)
            ((case graph_stats_of queries of
                Some stats \<Rightarrow> [format_graph_stats stats] | None \<Rightarrow> []) @
             (if top_companies_of queries 5 \<noteq> []
              then [format_top_companies (top_companies_of queries 5)] else [])))"
proof -
  have closed: "entities =
     \<lparr>companies = filter (company_candidate retriever) (words_of user_query),
      investors = map title (filter (\<lambda>k. in_str k (lower user_query)) (KNOWN_INVESTORS retriever)),
      sectors = map title (filter (\<lambda>k. in_str k (lower user_query)) (KNOWN_SECTORS retriever)),
      locations = map title (filter (\<lambda>k. in_str k (lower user_query)) (KNOWN_LOCATIONS retriever)),
      query_types = type_tags retriever user_query,
      is_comparison = any_in COMPARISON_KEYWORDS (lower user_query),
      is_aggregation = any_in AGGREGATION_KEYWORDS (lower user_query),
      is_top_query = any_in TOP_KEYWORDS (lower user_query)\<rparr>"
    using assms(1) by (simp add: extract_entities_closed)
  have c: "filter (company_candidate retriever) (words_of user_query) = []"
    using assms(2) closed by simp
  have i: "\<not> any_in (KNOWN_INVESTORS retriever) (lower user_query)"
    using assms(3) closed filter_empty_any [of title "lower user_query" "KNOWN_INVESTORS retriever"]
    by simp
  have s: "\<not> any_in (KNOWN_SECTORS retriever) (lower user_query)"
    using assms(4) closed filter_empty_any [of title "lower user_query" "KNOWN_SECTORS retriever"]
    by simp
  have l: "\<not> any_in (KNOWN_LOCATIONS retriever) (lower user_query)"
    using assms(5) closed filter_empty_any [of title "lower user_query" "KNOWN_LOCATIONS retriever"]
    by simp
  have tags: "type_tags retriever user_query = {}"
    using c i s l assms(9-11) by (auto simp: type_tags_def)
  have q: "query_types entities = {}" using closed tags by simp
  have f: "\<not> is_comparison entities" "\<not> is_aggregation entities" "\<not> is_top_query entities"
    using closed assms(6-8) by simp_all
  have intent: "get_query_intent entities = ''general''"
    using q f by (simp add: get_query_intent_def)
  have plan: "intent_plan queries ''general'' entities = build_general_context queries"
    by (simp add: intent_plan_def)
  have "\<exists>result. build_context queries retriever user_query = Inr result \<and>
          context result = join (NL @ NL) (fst (build_general_context queries))"
    by (simp add: build_context_unfold [OF assms(1)] intent plan Let_def)
  then show ?thesis using intent by (simp add: general_parts)
qed

theorem general_intent_without_signals_witness:
  "extract_entities GraphRetriever_class ''hello there'' =
     Inr \<lparr>companies = [], investors = [], sectors = [], locations = [],
          query_types = {}, is_comparison = False, is_aggregation = False,
          is_top_query = False\<rparr> \<and>
   \<not> any_in COMPARISON_KEYWORDS (lower ''hello there'') \<and>
   \<not> any_in AGGREGATION_KEYWORDS (lower ''hello there'') \<and>
   \<not> any_in TOP_KEYWORDS (lower ''hello there'') \<and>
   \<not> any_in INVESTOR_KEYWORDS (lower ''hello there'') \<and>
   \<not> any_in SECTOR_KEYWORDS (lower ''hello there'') \<and>
   \<not> any_in LOCATION_KEYWORDS (lower ''hello there'') \<and>
   (\<exists>result. build_context example_queries GraphRetriever_class ''hello there'' = Inr result \<and>
      context result =
        ''**Indian Unicorn Startups Database:**'' @ NL @ ''- Total Companies: 102'' @ NL @
        ''- Total Investors: 300'' @ NL @ ''- Sectors: 15'' @ NL @ ''- Locations: 14'' @ NL @
        ''- Total Relationships: 900'' @ NL @ NL @
        ''**Top Unicorns by Valuation:**'' @ NL @ ''1. Flipkart - $37.6B (E-Commerce)'')"
proof -
  let ?e = "\<lparr>companies = [], investors = [], sectors = [], locations = [],
          query_types = {}, is_comparison = False, is_aggregation = False,
          is_top_query = False\<rparr>"
  have e: "extract_entities GraphRetriever_class ''hello there'' = Inr ?e" by code_simp
  have k1: "\<not> any_in COMPARISON_KEYWORDS (lower ''hello there'')" by code_simp
  have k2: "\<not> any_in AGGREGATION_KEYWORDS (lower ''hello there'')" by code_simp
  have k3: "\<not> any_in TOP_KEYWORDS (lower ''hello there'')" by code_simp
  have k4: "\<not> any_in INVESTOR_KEYWORDS (lower ''hello there'')" by code_simp
  have k5: "\<not> any_in SECTOR_KEYWORDS (lower ''hello there'')" by code_simp
  have k6: "\<not> any_in LOCATION_KEYWORDS (lower ''hello there'')" by code_simp
  have v: "join (NL @ NL)
            ((case graph_stats_of example_queries of
                Some stats \<Rightarrow> [format_graph_stats stats] | None \<Rightarrow> []) @
             (if top_companies_of example_queries 5 \<noteq> []
              then [format_top_companies (top_companies_of example_queries 5)] else [])) =
        ''**Indian Unicorn Startups Database:**'' @ NL @ ''- Total Companies: 102'' @ NL @
        ''- Total Investors: 300'' @ NL @ ''- Sectors: 15'' @ NL @ ''- Locations: 14'' @ NL @
        ''- Total Relationships: 900'' @ NL @ NL @
        ''**Top Unicorns by Valuation:**'' @ NL @ ''1. Flipkart - $37.6B (E-Commerce)''"
    by code_simp
  have "\<exists>result. build_context example_queries GraphRetriever_class ''hello there'' = Inr result \<and>
      context result =
        join (NL @ NL)
            ((case graph_stats_of example_queries of
                Some stats \<Rightarrow> [format_graph_stats stats] | None \<Rightarrow> []) @
             (if top_companies_of example_queries 5 \<noteq> []
              then [format_top_companies (top_companies_of example_queries 5)] else []))"
    using general_intent_without_signals [OF e _ _ _ _ k1 k2 k3 k4 k5 k6, of example_queries]
    by simp
  then show ?thesis using e k1 k2 k3 k4 k5 k6 v by simp
qed

text \<open>
  C5. The count in the result adds 1 for each matched company-detail lookup and the number
  of rows of each list-shaped result that the plan retrieved. The code departs from this.
  For the query \<^verbatim>\<open>best fintech\<close> the top-ranking plan retrieves one top company, one
  top investor and two companies of the sector, four rows in all, and formats a block and
  a source tag for each of the three results; the count it returns is 2, the rows of the
  two top lists. Its loop over the sectors is the loop of the comparison and sector plans
  without the line that adds the rows: on the same entities those two plans add the two
  rows of the sector.
\<close>

theorem top_ranking_omits_sector_rows:
  "extract_entities GraphRetriever_class ''best fintech'' =
     Inr \<lparr>companies = [], investors = [], sectors = [''Fintech''], locations = [],
          query_types = {SECTOR}, is_comparison = False, is_aggregation = False,
          is_top_query = True\<rparr> \<and>
   get_query_intent
     \<lparr>companies = [], investors = [], sectors = [''Fintech''], locations = [],
      query_types = {SECTOR}, is_comparison = False, is_aggregation = False,
      is_top_query = True\<rparr> = ''top_ranking'' \<and>
   map_sum id sources (build_context example_queries GraphRetriever_class ''best fintech'') =
     Inr [''top_companies'', ''top_investors'', ''sector:Fintech''] \<and>
   length (top_companies_of example_queries 10) = 1 \<and>
   length (top_investors_of example_queries 10) = 1 \<and>
   length (sector_companies_of example_queries ''Fintech'' 5) = 2 \<and>
   top_ranking_rows_retrieved example_queries
     \<lparr>companies = [], investors = [], sectors = [''Fintech''], locations = [],
      query_types = {SECTOR}, is_comparison = False, is_aggregation = False,
      is_top_query = True\<rparr> = 4 \<and>
   map_sum id entities_found
     (build_context example_queries GraphRetriever_class ''best fintech'') = Inr 2 \<and>
   map_sum id entities_found
     (build_context example_queries GraphRetriever_class ''best fintech'') \<noteq>
     Inr (top_ranking_rows_retrieved example_queries
       \<lparr>companies = [], investors = [], sectors = [''Fintech''], locations = [],
        query_types = {SECTOR}, is_comparison = False, is_aggregation = False,
        is_top_query = True\<rparr>) \<and>
   build_comparison_context example_queries
     \<lparr>companies = [], investors = [], sectors = [''Fintech''], locations = [],
      query_types = {SECTOR}, is_comparison = False, is_aggregation = False,
      is_top_query = True\<rparr> =
     ([format_sector_companies ''Fintech'' (sector_companies_of example_queries ''Fintech'' 5)],
      [''sector:Fintech''], 2) \<and>
   snd (snd (build_sector_context example_queries
     \<lparr>companies = [], investors = [], sectors = [''Fintech''], locations = [],
      query_types = {SECTOR}, is_comparison = False, is_aggregation = False,
      is_top_query = True\<rparr>)) = 2"
  by code_simp

text \<open>
  C9. Whenever the extractor returns a non-empty list of investors (of sectors, of
  locations, of companies), the tag of that type is among the query types. So when the
  intent is \<^verbatim>\<open>company_info\<close> the list of investors is empty, and the company plan is the
  company-detail loop alone: its loop over the investors adds no block and nothing to
  the count.
\<close>

theorem company_intent_has_no_investors:
  assumes "extract_entities retriever user_query = Inr entities"
  shows "(investors entities \<noteq> [] \<longrightarrow> INVESTOR \<in> query_types entities) \<and>
     (sectors entities \<noteq> [] \<longrightarrow> SECTOR \<in> query_types entities) \<and>
     (locations entities \<noteq> [] \<longrightarrow> LOCATION \<in> query_types entities) \<and>
     (companies entities \<noteq> [] \<longrightarrow> COMPANY \<in> query_types entities) \<and>
     (get_query_intent entities = ''company_info'' \<longrightarrow>
        investors entities = [] \<and>
        build_company_context queries entities =
          foldl (company_lookup queries) ([], [], 0) (take 3 (companies entities)))"
proof -
  have closed: "entities =
     \<lparr>companies = filter (company_candidate retriever) (words_of user_query),
      investors = map title (filter (\<lambda>k. in_str k (lower user_query)) (KNOWN_INVESTORS retriever)),
      sectors = map title (filter (\<lambda>k. in_str k (lower user_query)) (KNOWN_SECTORS retriever)),
      locations = map title (filter (\<lambda>k. in_str k (lower user_query)) (KNOWN_LOCATIONS retriever)),
      query_types = type_tags retriever user_query,
      is_comparison = any_in COMPARISON_KEYWORDS (lower user_query),
      is_aggregation = any_in AGGREGATION_KEYWORDS (lower user_query),
      is_top_query = any_in TOP_KEYWORDS (lower user_query)\<rparr>"
    using assms by (simp add: extract_entities_closed)
  have i: "investors entities \<noteq> [] \<longrightarrow> INVESTOR \<in> query_types entities"
    using closed filter_empty_any [of title "lower user_query" "KNOWN_INVESTORS retriever"]
    by (auto simp: type_tags_def)
  have s: "sectors entities \<noteq> [] \<longrightarrow> SECTOR \<in> query_types entities"
    using closed filter_empty_any [of title "lower user_query" "KNOWN_SECTORS retriever"]
    by (auto simp: type_tags_def)
  have l: "locations entities \<noteq> [] \<longrightarrow> LOCATION \<in> query_types entities"
    using closed filter_empty_any [of title "lower user_query" "KNOWN_LOCATIONS retriever"]
    by (auto simp: type_tags_def)
  have c: "companies entities \<noteq> [] \<longrightarrow> COMPANY \<in> query_types entities"
    using closed by (auto simp: type_tags_def)
  have p: "get_query_intent entities = ''company_info'' \<longrightarrow>
        investors entities = [] \<and>
        build_company_context queries entities =
          foldl (company_lookup queries) ([], [], 0) (take 3 (companies entities))"
  proof
    assume intent: "get_query_intent entities = ''company_info''"
    have "INVESTOR \<notin> query_types entities"
      using intent by (auto simp: get_query_intent_def split: if_splits)
    then have "investors entities = []" using i by blast
    then show "investors entities = [] \<and>
        build_company_context queries entities =
          foldl (company_lookup queries) ([], [], 0) (take 3 (companies entities))"
      by (simp add: build_company_context_def Let_def)
  qed
  show ?thesis using i s l c p by blast
qed

theorem company_intent_has_no_investors_witness:
  "extract_entities GraphRetriever_class ''about Flipkart'' =
     Inr \<lparr>companies = [''Flipkart''], investors = [], sectors = [], locations = [],
          query_types = {COMPANY}, is_comparison = False, is_aggregation = False,
          is_top_query = False\<rparr> \<and>
   get_query_intent
     \<lparr>companies = [''Flipkart''], investors = [], sectors = [], locations = [],
      query_types = {COMPANY}, is_comparison = False, is_aggregation = False,
      is_top_query = False\<rparr> = ''company_info'' \<and>
   build_company_context example_queries
     \<lparr>companies = [''Flipkart''], investors = [], sectors = [], locations = [],
      query_types = {COMPANY}, is_comparison = False, is_aggregation = False,
      is_top_query = False\<rparr> =
     foldl (company_lookup example_queries) ([], [], 0) (take 3 [''Flipkart''])"
proof -
  let ?e = "\<lparr>companies = [''Flipkart''], investors = [], sectors = [], locations = [],
      query_types = {COMPANY}, is_comparison = False, is_aggregation = False,
      is_top_query = False\<rparr>"
  have e: "extract_entities GraphRetriever_class ''about Flipkart'' = Inr ?e" by code_simp
  have i: "get_query_intent ?e = ''company_info''" by code_simp
  show ?thesis
    using company_intent_has_no_investors [OF e, of example_queries] e i by simp
qed

section \<open>Properties of the generation client\<close>

text \<open>
  Every handler returns a failure result; its description is empty only when the
  exception it caught had no text.
\<close>

lemma str_decode_error_nonempty: "str_decode_error e \<noteq> []"
  by (cases e) simp

lemma generate_except_result:
  "\<exists>result d. generate_except self e = Inr result \<and> \<not> success result \<and>
     content result = JStr [] \<and> error result = Some d \<and>
     (d = [] \<longrightarrow> e = OtherException [])"
  by (cases e) auto

lemma generate_returns:
  "\<exists>result. generate self post prompt ctx system_prompt temperature max_tokens = Inr result"
proof -
  let ?posted = "post (generate_url self)
      (generate_payload self prompt ctx system_prompt temperature max_tokens)
      (ollama_timeout self)"
  show ?thesis
  proof (cases "generate_try self ?posted")
    case (Inl e)
    then show ?thesis
      using generate_except_result [of self e] by (auto simp: generate_def Let_def)
  next
    case (Inr result)
    then show ?thesis by (simp add: generate_def Let_def)
  qed
qed

lemma failed_exchange_try:
  assumes "failed_exchange posted"
  shows "(\<exists>e. generate_try self posted = Inl e \<and> e \<noteq> OtherException []) \<or>
         (\<exists>result d. generate_try self posted = Inr result \<and> \<not> success result \<and>
            content result = JStr [] \<and> error result = Some d \<and> d \<noteq> [])"
proof (cases posted)
  case (Inl e)
  then show ?thesis using assms by (cases e) (auto simp: failed_exchange_def generate_try_def)
next
  case (Inr response)
  show ?thesis
  proof (cases "status_code response = 200")
    case True
    then obtain de where "json response = Inl de"
      using assms Inr by (auto simp: failed_exchange_def split: sum.splits)
    then show ?thesis
      using True Inr by (simp add: generate_try_def str_decode_error_nonempty)
  next
    case False
    then show ?thesis using Inr by (simp add: generate_try_def)
  qed
qed

section \<open>Claims about the generation client\<close>

text \<open>
  C6. No call of \<^verbatim>\<open>generate\<close> raises: whatever the endpoint does, a result comes back.
  When the exchange fails (the connection is refused, the request times out, the status
  is not 200, or the body of a 200 response is not JSON) the result has
  \<^verbatim>\<open>success = False\<close>, the empty string as content and a non-empty error description.
\<close>

theorem generate_reports_failure:
  "(\<exists>result. generate self post prompt ctx system_prompt temperature max_tokens =
      Inr result) \<and>
   (failed_exchange
      (post (generate_url self)
         (generate_payload self prompt ctx system_prompt temperature max_tokens)
         (ollama_timeout self)) \<longrightarrow>
    (\<exists>result d.
       generate self post prompt ctx system_prompt temperature max_tokens = Inr result \<and>
       \<not> success result \<and> content result = JStr [] \<and> error result = Some d \<and> d \<noteq> []))"
proof (intro conjI impI)
  show "\<exists>result. generate self post prompt ctx system_prompt temperature max_tokens =
      Inr result"
    by (rule generate_returns)
next
  let ?posted = "post (generate_url self)
      (generate_payload self prompt ctx system_prompt temperature max_tokens)
      (ollama_timeout self)"
  assume "failed_exchange ?posted"
  then consider
    (raised) e where "generate_try self ?posted = Inl e" "e \<noteq> OtherException []"
    | (returned) result d where "generate_try self ?posted = Inr result" "\<not> success result"
        "content result = JStr []" "error result = Some d" "d \<noteq> []"
    using failed_exchange_try [of ?posted self] by blast
  then show "\<exists>result d.
       generate self post prompt ctx system_prompt temperature max_tokens = Inr result \<and>
       \<not> success result \<and> content result = JStr [] \<and> error result = Some d \<and> d \<noteq> []"
  proof cases
    case raised
    then show ?thesis
      using generate_except_result [of self e] by (auto simp: generate_def Let_def)
  next
    case returned
    then show ?thesis by (auto simp: generate_def Let_def)
  qed
qed

theorem generate_reports_failure_witness:
  "failed_exchange
     (endpoint_down (generate_url example_config)
        (generate_payload example_config ''Who leads fintech?'' ''none'' None None None)
        (ollama_timeout example_config)) \<and>
   (\<exists>result d.
      generate example_config endpoint_down ''Who leads fintech?'' ''none'' None None None =
        Inr result \<and>
      \<not> success result \<and> content result = JStr [] \<and> error result = Some d \<and> d \<noteq> [])"
proof -
  have f: "failed_exchange
     (endpoint_down (generate_url example_config)
        (generate_payload example_config ''Who leads fintech?'' ''none'' None None None)
        (ollama_timeout example_config))"
    by (simp add: endpoint_down_def failed_exchange_def)
  show ?thesis
    using generate_reports_failure
      [of example_config endpoint_down "''Who leads fintech?''" "''none''" None None None] f
    by blast
qed

text \<open>
  C10, as stated, fails. The body \<^verbatim>\<open>{"total_duration": "soon"}\<close> is JSON and lacks the
  \<^verbatim>\<open>response\<close> field, but dividing the duration raises \<^verbatim>\<open>TypeError\<close>, the last
  \<^verbatim>\<open>except\<close> clause catches it, and the result has \<^verbatim>\<open>success = False\<close> and an error.
\<close>

theorem bad_duration_counterexample:
  "endpoint_bad_duration (generate_url example_config)
     (generate_payload example_config ''Who leads fintech?'' ''none'' None None None)
     (ollama_timeout example_config) =
     Inr \<lparr>status_code = 200,
          text = ''{'' @ dquoted ''total_duration'' @ '': '' @ dquoted ''soon'' @ ''}'',
          json = Inr (JObj [(''total_duration'', JStr ''soon'')])\<rparr> \<and>
   map_of [(''total_duration'', JStr ''soon'')] ''response'' = None \<and>
   generate example_config endpoint_bad_duration ''Who leads fintech?'' ''none'' None None None =
     Inr \<lparr>content = JStr [], model = JStr ''mistral'', total_duration_ms = 0,
          eval_count = JInt 0, success = False,
          error = Some (''unsupported operand type(s) for /: '' @ quoted ''str'' @
                        '' and '' @ quoted ''int'')\<rparr>"
  by (simp add: endpoint_bad_duration_def generate_def generate_try_def data_get_def
      true_div_million_def example_config_def Let_def)

text \<open>
  C10, amended. If the endpoint responds with status 200 and a JSON object that lacks the
  \<^verbatim>\<open>response\<close> field and whose \<^verbatim>\<open>total_duration\<close> field, if present, is a number that
  can be divided into a float, \<^verbatim>\<open>generate\<close> returns \<^verbatim>\<open>success = True\<close> with the empty
  string as content and no error. So \<^verbatim>\<open>success = True\<close> does not imply non-empty content:
  the witness is such a call.
\<close>

theorem missing_response_field:
  assumes "post (generate_url self)
             (generate_payload self prompt ctx system_prompt temperature max_tokens)
             (ollama_timeout self) = Inr response"
    and "status_code response = 200"
    and "json response = Inr (JObj kvs)"
    and "map_of kvs ''response'' = None"
    and "map_of kvs ''total_duration'' = None \<or>
         (\<exists>v. map_of kvs ''total_duration'' = Some v \<and> is_duration v)"
  shows "\<exists>result. generate self post prompt ctx system_prompt temperature max_tokens =
           Inr result \<and>
         success result \<and> content result = JStr [] \<and> error result = None"
proof -
  have no_raise: "\<not> isl (true_div_million v)" if "is_duration v" for v
    using that by (cases v) (simp_all add: is_duration_def true_div_million_def not_le)
  have duration: "\<exists>ms. true_div_million v = Inr ms" if "is_duration v" for v
    using no_raise [OF that] by (cases "true_div_million v") simp_all
  have zero: "\<exists>ms. true_div_million (JInt 0) = Inr ms"
    using duration [of "JInt 0"] by (simp add: is_duration_def)
  have "\<exists>ms. (case data_get (JObj kvs) ''total_duration'' (JInt 0) of
                 Inl e \<Rightarrow> Inl e | Inr v \<Rightarrow> true_div_million v) = Inr ms"
  proof (cases "map_of kvs ''total_duration''")
    case None
    then show ?thesis using zero by (simp add: data_get_def)
  next
    case (Some v)
    then have "is_duration v" using assms(5) by simp
    then show ?thesis using Some duration [of v] by (simp add: data_get_def)
  qed
  then obtain ms where ms:
    "(case data_get (JObj kvs) ''total_duration'' (JInt 0) of
        Inl e \<Rightarrow> Inl e | Inr v \<Rightarrow> true_div_million v) = Inr ms"
    by blast
  have t: "generate_try self (Inr response) =
      (case data_get (JObj kvs) ''eval_count'' (JInt 0) of
         Inl e \<Rightarrow> Inl e
       | Inr eval_v \<Rightarrow>
           Inr \<lparr>content = JStr [],
                model = (case map_of kvs ''model'' of
                           None \<Rightarrow> JStr (ollama_model self) | Some v \<Rightarrow> v),
                total_duration_ms = ms,
                eval_count = eval_v, success = True, error = None\<rparr>)"
    using assms(2-4) ms
    by (auto simp: generate_try_def data_get_def split: option.splits sum.splits)
  show ?thesis
    using assms(1) t
    by (auto simp: generate_def data_get_def Let_def split: option.splits)
qed

theorem missing_response_field_witness:
  "generate example_config endpoint_no_response ''Who leads fintech?'' ''none'' None None None =
     Inr \<lparr>content = JStr [], model = JStr ''mistral'', total_duration_ms = 0,
          eval_count = JInt 0, success = True, error = None\<rparr>"
proof -
  have p: "endpoint_no_response (generate_url example_config)
     (generate_payload example_config ''Who leads fintech?'' ''none'' None None None)
     (ollama_timeout example_config) =
     Inr \<lparr>status_code = 200, text = ''{'' @ dquoted ''done'' @ '': true}'',
          json = Inr (JObj [(''done'', JBool True)])\<rparr>"
    by (simp add: endpoint_no_response_def)
  obtain result where r:
    "generate example_config endpoint_no_response ''Who leads fintech?'' ''none'' None None None =
       Inr result"
    "success result" "content result = JStr []" "error result = None"
    using missing_response_field
      [of endpoint_no_response example_config "''Who leads fintech?''" "''none''" None None None
        _ "[(''done'', JBool True)]", OF p]
    by auto
  have v: "generate example_config endpoint_no_response ''Who leads fintech?'' ''none'' None None None =
     Inr \<lparr>content = JStr [], model = JStr ''mistral'', total_duration_ms = 0,
          eval_count = JInt 0, success = True, error = None\<rparr>"
    by (simp add: endpoint_no_response_def generate_def generate_try_def data_get_def
      true_div_million_def example_config_def Let_def)
  show ?thesis using r v by simp
qed

section \<open>Properties of the query layer\<close>

text \<open>Ordering the records keeps their number.\<close>

lemma length_insert_desc: "length (insert_desc r rs) = Suc (length rs)"
  by (induction rs) auto

lemma length_order_by_valuation_desc: "length (order_by_valuation_desc rs) = length rs"
  unfolding order_by_valuation_desc_def
  by (induction rs) (auto simp: length_insert_desc)

section \<open>Claims about the query layer\<close>

text \<open>
  C8. For every search term, graph and cap, \<^verbatim>\<open>get_sector_companies\<close> returns at most as
  many records as the cap: exactly the cap, or all the matching rows when there are fewer.
  A lookup with cap 5 returns at most 5 records however many match. It returns for every
  cap that is not negative.
\<close>

theorem sector_lookup_respects_cap:
  "(\<forall>rows. get_sector_companies g sector_name limit = Inr rows \<longrightarrow>
      int (length rows) \<le> limit \<and>
      length rows =
        min (nat limit)
          (length (concat (map (\<lambda>(c, s). optional_subsector g c)
                     (match_sector g sector_name))))) \<and>
   (\<forall>rows. get_sector_companies g sector_name 5 = Inr rows \<longrightarrow> length rows \<le> 5) \<and>
   (0 \<le> limit \<longrightarrow> (\<exists>rows. get_sector_companies g sector_name limit = Inr rows))"
proof (intro conjI allI impI)
  fix rows
  assume r: "get_sector_companies g sector_name limit = Inr rows"
  then have l: "0 \<le> limit"
    by (auto simp: get_sector_companies_def Let_def split: if_splits)
  have rows: "rows = take (nat limit) (order_by_valuation_desc
      (map (\<lambda>(c, ss). \<lparr>company = name c, valuation = currentValuation c, subsector = ss\<rparr>)
         (concat (map (\<lambda>(c, s). optional_subsector g c) (match_sector g sector_name)))))"
    using r by (auto simp: get_sector_companies_def Let_def split: if_splits)
  show "int (length rows) \<le> limit" using l by (simp add: rows)
  show "length rows =
        min (nat limit)
          (length (concat (map (\<lambda>(c, s). optional_subsector g c)
                     (match_sector g sector_name))))"
    by (simp add: rows length_order_by_valuation_desc min.commute)
next
  fix rows
  assume "get_sector_companies g sector_name 5 = Inr rows"
  then show "length rows \<le> 5"
    by (auto simp: get_sector_companies_def Let_def)
next
  assume "0 \<le> limit"
  then show "\<exists>rows. get_sector_companies g sector_name limit = Inr rows"
    by (simp add: get_sector_companies_def Let_def)
qed

theorem sector_lookup_respects_cap_witness:
  "length (match_sector example_graph ''fintech'') = 7 \<and>
   (\<exists>rows. get_sector_companies example_graph ''fintech'' 5 = Inr rows \<and> length rows = 5 \<and>
      map company rows = [''Paytm'', ''PhonePe'', ''Razorpay'', ''CRED'', ''Pine Labs''])"
proof -
  have m: "length (match_sector example_graph ''fintech'') = 7" by code_simp
  have v: "map_sum id (map company) (get_sector_companies example_graph ''fintech'' 5) =
     Inr [''Paytm'', ''PhonePe'', ''Razorpay'', ''CRED'', ''Pine Labs'']"
    by code_simp
  obtain rows where r: "get_sector_companies example_graph ''fintech'' 5 = Inr rows"
    using sector_lookup_respects_cap [of example_graph "''fintech''" 5] by auto
  then have "length rows \<le> 5"
    using sector_lookup_respects_cap [of example_graph "''fintech''" 5] by auto
  moreover have "map company rows = [''Paytm'', ''PhonePe'', ''Razorpay'', ''CRED'', ''Pine Labs'']"
    using v r by simp
  ultimately show ?thesis using m r by (auto dest: arg_cong [where f = length])
qed

end
